theory Spec2Isabelle
  imports Complex_Main "HOL-Library.Log_Nat" "HOL-Library.Product_Lexorder"
begin

section \<open>English Level Quiz: the assessment session engine of bot.py and app.py\<close>

text \<open>
  The repository implements the quiz twice: \<^verbatim>\<open>bot.py\<close> (a Telegram bot whose session lives
  in the FSM context of the user) and \<^verbatim>\<open>app.py\<close> (a Flask application whose session lives in
  the signed cookie). Both read and write the same SQLite database. The database is modelled
  as a record of tables, every handler as a function that takes the state it reads and
  returns the state it leaves behind, and every Python exception as a value.
\<close>

subsection \<open>Python values\<close>

datatype py_error = ZeroDivisionError | IndexError

text \<open>Subscription \<^verbatim>\<open>xs[i]\<close> of a list: positions \<open>0 .. len - 1\<close> are read directly,
  positions \<open>-len .. -1\<close> are read from the back, anything else raises \<^verbatim>\<open>IndexError\<close>.\<close>

definition py_index :: "'a list \<Rightarrow> int \<Rightarrow> py_error + 'a" where
  "py_index xs i =
     (if 0 \<le> i \<and> i < int (length xs) then Inr (xs ! nat i)
      else if i < 0 \<and> - int (length xs) \<le> i then Inr (xs ! nat (int (length xs) + i))
      else Inl IndexError)"

text \<open>
  \<^verbatim>\<open>(score / total) * 100\<close> is computed in binary64: the true division of two ints is the
  correctly rounded quotient, and the product with 100 is rounded again. A double is
  represented by the rational it denotes. \<open>round_double\<close> rounds to the nearest double, ties
  to even, with the quantum \<open>2^-1074\<close> of the subnormal range; overflow is out of reach of
  the operands here (counters and list lengths).
\<close>

definition round_half_even :: "rat \<Rightarrow> int" where
  "round_half_even x =
     (let f = \<lfloor>x\<rfloor>; d = x - of_int f
      in if d < 1 / 2 then f
         else if 1 / 2 < d then f + 1
         else if even f then f else f + 1)"

definition scale2 :: "rat \<Rightarrow> int \<Rightarrow> rat" where
  "scale2 x e = (if 0 \<le> e then x * 2 ^ nat e else x / 2 ^ nat (- e))"

text \<open>The binary exponent of a positive rational: \<open>2^e \<le> x < 2^(e+1)\<close>.\<close>

definition ilog2 :: "rat \<Rightarrow> int" where
  "ilog2 x =
     (let (a, b) = quotient_of x; k = bitlen a - bitlen b
      in if scale2 1 k \<le> x then k else k - 1)"

definition round_double :: "rat \<Rightarrow> rat" where
  "round_double x =
     (if x = 0 then 0
      else let m = \<bar>x\<bar>; e = max (ilog2 m - 52) (- 1074);
               r = scale2 (of_int (round_half_even (scale2 m (- e)))) e
           in if x < 0 then - r else r)"

text \<open>\<^verbatim>\<open>percentage = (score / total) * 100\<close>, for \<open>total \<noteq> 0\<close>.\<close>

definition percentage_of :: "int \<Rightarrow> int \<Rightarrow> rat" where
  "percentage_of sc tot = round_double (round_double (of_int sc / of_int tot) * 100)"

subsection \<open>The database\<close>

text \<open>A row of \<^verbatim>\<open>english_levels\<close> and a row of \<^verbatim>\<open>questions\<close>; the options column holds
  a JSON array of strings, modelled as the list it encodes.\<close>

record level_row =
  l_id :: int
  l_level :: string
  l_description :: string

record question_row =
  qr_id :: int
  qr_level_id :: int
  qr_question_text :: string
  qr_options :: "string list"
  qr_correct_answer :: int

text \<open>The row that the quiz queries select:
  \<^verbatim>\<open>q.id, q.question_text, q.options, q.correct_answer, l.level\<close>.\<close>

record question =
  q_id :: int
  q_text :: string
  q_options :: "string list"
  q_correct :: int
  q_level :: string

text \<open>The \<^verbatim>\<open>wrong_answers\<close> column of \<^verbatim>\<open>results\<close>: the bot dumps the wrong question
  rows, the web application dumps their ids.\<close>

datatype wrong_json = Wrong_questions "question list" | Wrong_ids "int list"

record result_row =
  r_user_id :: int
  r_level :: string
  r_score :: int
  r_total_questions :: int
  r_wrong_answers :: "wrong_json option"
  r_time_taken :: int

text \<open>\<^verbatim>\<open>daily_bonus\<close> is \<^verbatim>\<open>UNIQUE(user_id, date)\<close> and \<^verbatim>\<open>user_hints\<close> is unique in
  \<^verbatim>\<open>user_id\<close>: each is a map from its key to the remaining column.\<close>

record db =
  english_levels :: "level_row list"
  questions_tbl :: "question_row list"
  results :: "result_row list"
  daily_bonus :: "int \<times> string \<rightharpoonup> int"
  user_hints :: "int \<rightharpoonup> int"

subsection \<open>Hint economy (bot.py)\<close>

text \<open>\<^verbatim>\<open>get_user_hints\<close>: the stored count, 0 when the user has no row.\<close>

definition get_user_hints :: "db \<Rightarrow> int \<Rightarrow> int" where
  "get_user_hints d uid = (case user_hints d uid of Some h \<Rightarrow> h | None \<Rightarrow> 0)"

text \<open>\<^verbatim>\<open>get_daily_bonus\<close>, with \<^verbatim>\<open>date.today().isoformat()\<close> as the parameter
  \<open>today\<close>. A fetched row is a non-empty tuple, hence truthy whatever it holds, and its
  \<^verbatim>\<open>claimed\<close> column is returned; otherwise the row is inserted with \<^verbatim>\<open>claimed = 1\<close>, the
  hint count is inserted as 1 or incremented, and 1 is returned.\<close>

definition get_daily_bonus :: "db \<Rightarrow> int \<Rightarrow> string \<Rightarrow> int \<times> db" where
  "get_daily_bonus d uid today =
     (case daily_bonus d (uid, today) of
        Some claimed \<Rightarrow> (claimed, d)
      | None \<Rightarrow>
          (1, d\<lparr>daily_bonus := (daily_bonus d)((uid, today) \<mapsto> 1),
                 user_hints := (user_hints d)(uid \<mapsto>
                    (case user_hints d uid of None \<Rightarrow> 1 | Some h \<Rightarrow> h + 1))\<rparr>))"

text \<open>\<^verbatim>\<open>use_hint\<close>:
  \<^verbatim>\<open>UPDATE user_hints SET hints_count = hints_count - 1 WHERE user_id = ? AND hints_count > 0\<close>.\<close>

definition use_hint :: "db \<Rightarrow> int \<Rightarrow> db" where
  "use_hint d uid =
     (case user_hints d uid of
        Some h \<Rightarrow> if 0 < h then d\<lparr>user_hints := (user_hints d)(uid \<mapsto> h - 1)\<rparr> else d
      | None \<Rightarrow> d)"

datatype bonus_reply = Already_claimed int | Bonus_granted

text \<open>The handler \<^verbatim>\<open>claim_daily_bonus\<close>: a non-zero return value selects the
  "already claimed today" message, which shows the hint count.\<close>

definition claim_daily_bonus :: "db \<Rightarrow> int \<Rightarrow> string \<Rightarrow> bonus_reply \<times> db" where
  "claim_daily_bonus d uid today =
     (let (claimed, d') = get_daily_bonus d uid today
      in if claimed \<noteq> 0 then (Already_claimed (get_user_hints d' uid), d')
         else (Bonus_granted, d'))"

datatype hint_reply = Hint_used | No_hint

text \<open>The handler \<^verbatim>\<open>use_hint_callback\<close>.\<close>

definition use_hint_callback :: "db \<Rightarrow> int \<Rightarrow> hint_reply \<times> db" where
  "use_hint_callback d uid =
     (if 0 < get_user_hints d uid then (Hint_used, use_hint d uid) else (No_hint, d))"

subsection \<open>Fetching questions\<close>

text \<open>\<^verbatim>\<open>FROM questions q JOIN english_levels l ON q.level_id = l.id\<close> and the selected
  columns.\<close>

definition joined :: "db \<Rightarrow> (question_row \<times> level_row) list" where
  "joined d =
     concat (map (\<lambda>q. map (\<lambda>l. (q, l))
                          (filter (\<lambda>l. qr_level_id q = l_id l) (english_levels d)))
                 (questions_tbl d))"

definition select_question :: "question_row \<times> level_row \<Rightarrow> question" where
  "select_question r =
     \<lparr>q_id = qr_id (fst r), q_text = qr_question_text (fst r), q_options = qr_options (fst r),
      q_correct = qr_correct_answer (fst r), q_level = l_level (snd r)\<rparr>"

text \<open>Python truthiness of an optional string: \<^verbatim>\<open>None\<close> and \<^verbatim>\<open>""\<close> are false.\<close>

definition truthy :: "string option \<Rightarrow> bool" where
  "truthy s = (s \<noteq> None \<and> s \<noteq> Some [])"

text \<open>\<^verbatim>\<open>get_questions\<close> of bot.py: \<^verbatim>\<open>WHERE l.level = ? ORDER BY q.id\<close> for a level,
  \<^verbatim>\<open>ORDER BY l.id, q.id\<close> without one.\<close>

definition get_questions :: "db \<Rightarrow> string option \<Rightarrow> question list" where
  "get_questions d level =
     (if truthy level then
        map select_question
          (sort_key (\<lambda>r. qr_id (fst r))
             (filter (\<lambda>r. Some (l_level (snd r)) = level) (joined d)))
      else
        map select_question
          (sort_key (\<lambda>r. (l_id (snd r), qr_id (fst r))) (joined d)))"

text \<open>\<^verbatim>\<open>ORDER BY RANDOM()\<close> of app.py: SQLite draws one random key for every row and sorts
  by it. The keys are the parameter \<open>rnd\<close>, the key of the \<open>i\<close>-th row being \<open>rnd i\<close>.\<close>

definition order_by_random :: "(nat \<Rightarrow> int) \<Rightarrow> 'a list \<Rightarrow> 'a list" where
  "order_by_random rnd rows = map snd (sort_key fst (zip (map rnd [0..<length rows]) rows))"

text \<open>The two queries of \<^verbatim>\<open>start_quiz\<close> in app.py and the loop that builds
  \<^verbatim>\<open>quiz_data\<close>.\<close>

definition fetch_quiz_data :: "db \<Rightarrow> (nat \<Rightarrow> int) \<Rightarrow> string option \<Rightarrow> question list" where
  "fetch_quiz_data d rnd level =
     (if truthy level \<and> level \<noteq> Some ''full'' then
        map select_question
          (order_by_random rnd (filter (\<lambda>r. Some (l_level (snd r)) = level) (joined d)))
      else map select_question (order_by_random rnd (joined d)))"

subsection \<open>Level determination\<close>

text \<open>The threshold chain, written out identically in \<^verbatim>\<open>finish_quiz\<close> (bot.py) and in
  \<^verbatim>\<open>submit_answer\<close> (app.py).\<close>

definition determined_level :: "rat \<Rightarrow> string" where
  "determined_level percentage =
     (if 90 \<le> percentage then ''C1''
      else if 80 \<le> percentage then ''B2''
      else if 70 \<le> percentage then ''B1''
      else if 60 \<le> percentage then ''A2''
      else ''A1'')"

text \<open>The division raises on a zero total before any level is determined.\<close>

definition determine_level :: "int \<Rightarrow> int \<Rightarrow> py_error + string" where
  "determine_level sc tot =
     (if tot = 0 then Inl ZeroDivisionError else Inr (determined_level (percentage_of sc tot)))"

record outcome =
  o_score :: int
  o_total :: int
  o_percentage :: rat
  o_level :: string
  o_time_taken :: int

subsection \<open>The bot's session (bot.py)\<close>

text \<open>The FSM data written by \<^verbatim>\<open>start_quiz\<close>. The FSM context of a user is \<open>None\<close> when
  it is cleared and \<open>Some\<close> of the data while the state is \<^verbatim>\<open>taking_quiz\<close>. Times are seconds.\<close>

record quiz =
  questions :: "question list"
  current :: int
  score :: int
  level :: string
  lives :: int
  wrong_answers :: "question list"
  start_time :: int
  user_id :: int

datatype bot_reply =
    No_questions_alert
  | Ask_question question int int int bool
  | Finished outcome
  | No_handler

text \<open>\<^verbatim>\<open>save_result\<close>: an empty wrong-answer list is stored as \<^verbatim>\<open>NULL\<close>.\<close>

definition save_result ::
  "db \<Rightarrow> int \<Rightarrow> string \<Rightarrow> int \<Rightarrow> int \<Rightarrow> question list \<Rightarrow> int \<Rightarrow> db" where
  "save_result d uid lvl sc tot wrong time_taken =
     d\<lparr>results := results d @
          [\<lparr>r_user_id = uid, r_level = lvl, r_score = sc, r_total_questions = tot,
            r_wrong_answers = (if wrong \<noteq> [] then Some (Wrong_questions wrong) else None),
            r_time_taken = time_taken\<rparr>]\<rparr>"

text \<open>\<^verbatim>\<open>ask_question\<close>: the question, its number, the pool size, the lives and whether the
  hint button is shown.\<close>

definition ask_question :: "db \<Rightarrow> quiz \<Rightarrow> question \<Rightarrow> bot_reply" where
  "ask_question d data q =
     Ask_question q (current data + 1) (int (length (questions data))) (lives data)
       (0 < get_user_hints d (user_id data))"

text \<open>The review loop of \<^verbatim>\<open>finish_quiz\<close> reads \<^verbatim>\<open>options[q[3]]\<close> for the first five wrong
  questions; it raises where the stored index is outside the options.\<close>

fun review_lines :: "question list \<Rightarrow> py_error + string list" where
  "review_lines [] = Inr []"
| "review_lines (q # qs) =
     (case py_index (q_options q) (q_correct q) of
        Inl e \<Rightarrow> Inl e
      | Inr correct_opt \<Rightarrow>
          (case review_lines qs of Inl e \<Rightarrow> Inl e | Inr ls \<Rightarrow> Inr (correct_opt # ls)))"

text \<open>\<^verbatim>\<open>finish_quiz\<close>: the result is saved before the review text is built, and the FSM
  context is cleared last. An exception leaves what was done before it. The certificate and
  the Telegram calls are outside the model.\<close>

definition finish_quiz ::
  "db \<Rightarrow> quiz \<Rightarrow> int \<Rightarrow> int \<Rightarrow> int \<Rightarrow> int \<Rightarrow> (py_error + bot_reply) \<times> quiz option \<times> db" where
  "finish_quiz d data uid sc tot now =
     (let time_taken = now - start_time data
      in case determine_level sc tot of
           Inl e \<Rightarrow> (Inl e, Some data, d)
         | Inr lvl \<Rightarrow>
             (let d' = save_result d uid lvl sc tot (wrong_answers data) time_taken
              in case review_lines (take 5 (wrong_answers data)) of
                   Inl e \<Rightarrow> (Inl e, Some data, d')
                 | Inr ls \<Rightarrow>
                     (Inr (Finished \<lparr>o_score = sc, o_total = tot,
                                     o_percentage = percentage_of sc tot, o_level = lvl,
                                     o_time_taken = time_taken\<rparr>),
                      None, d')))"

text \<open>\<^verbatim>\<open>start_quiz\<close>: \<open>lvl\<close> is the callback data after \<^verbatim>\<open>start_quiz_\<close>.\<close>

definition start_quiz ::
  "db \<Rightarrow> quiz option \<Rightarrow> int \<Rightarrow> string \<Rightarrow> int \<Rightarrow> bot_reply \<times> quiz option" where
  "start_quiz d ctx uid lvl now =
     (let qs = (if lvl = ''full'' then get_questions d None else get_questions d (Some lvl))
      in case qs of
           [] \<Rightarrow> (No_questions_alert, ctx)
         | q0 # _ \<Rightarrow>
             (let data = \<lparr>questions = qs, current = 0, score = 0, level = lvl, lives = 3,
                          wrong_answers = [], start_time = now, user_id = uid\<rparr>
              in (ask_question d data q0, Some data)))"

text \<open>The body of \<^verbatim>\<open>handle_answer\<close> up to \<^verbatim>\<open>state.update_data\<close>: the data after the
  answer is scored.\<close>

definition score_answer :: "quiz \<Rightarrow> question \<Rightarrow> int \<Rightarrow> quiz" where
  "score_answer data q answer_idx =
     (if answer_idx = q_correct q
      then data\<lparr>current := current data + 1, score := score data + 1\<rparr>
      else data\<lparr>current := current data + 1, lives := lives data - 1,
                wrong_answers := wrong_answers data @ [q]\<rparr>)"

definition handle_answer ::
  "db \<Rightarrow> quiz \<Rightarrow> int \<Rightarrow> int \<Rightarrow> int \<Rightarrow> (py_error + bot_reply) \<times> quiz option \<times> db" where
  "handle_answer d data uid answer_idx now =
     (case py_index (questions data) (current data) of
        Inl e \<Rightarrow> (Inl e, Some data, d)
      | Inr q \<Rightarrow>
          (let data' = score_answer data q answer_idx
           in if lives data' \<le> 0
              then finish_quiz d data' uid (score data') (int (length (questions data'))) now
              else if int (length (questions data')) \<le> current data'
              then finish_quiz d data' uid (score data') (int (length (questions data'))) now
              else (case py_index (questions data') (current data') of
                      Inl e \<Rightarrow> (Inl e, Some data', d)
                    | Inr q' \<Rightarrow> (Inr (ask_question d data' q'), Some data', d))))"

text \<open>The handler is registered for the state \<^verbatim>\<open>taking_quiz\<close> only: without a session no
  handler runs.\<close>

definition answer_callback ::
  "db \<Rightarrow> quiz option \<Rightarrow> int \<Rightarrow> int \<Rightarrow> int \<Rightarrow> (py_error + bot_reply) \<times> quiz option \<times> db" where
  "answer_callback d ctx uid answer_idx now =
     (case ctx of
        None \<Rightarrow> (Inr No_handler, None, d)
      | Some data \<Rightarrow> handle_answer d data uid answer_idx now)"

subsection \<open>The web session (app.py)\<close>

text \<open>\<^verbatim>\<open>session['current_quiz']\<close> and the cookie session that holds it. The wrong answers
  are question ids here, and there are no lives.\<close>

record web_quiz =
  wq_questions :: "question list"
  wq_current :: int
  wq_score :: int
  wq_wrong_answers :: "int list"
  wq_start_time :: int
  wq_level :: "string option"

record web_session =
  ws_user_id :: "int option"
  ws_current_quiz :: "web_quiz option"

datatype web_reply =
    Authentication_required
  | No_active_quiz
  | Started int question
  | Next_question bool question int int int
  | Finished_web bool outcome

text \<open>\<^verbatim>\<open>start_quiz\<close> of app.py: the session entry is stored before \<^verbatim>\<open>quiz_data[0]\<close> is
  read for the response. An exception is returned together with the session as it stands
  when the exception is raised.\<close>

definition start_quiz_web ::
  "db \<Rightarrow> (nat \<Rightarrow> int) \<Rightarrow> web_session \<Rightarrow> string option \<Rightarrow> int
     \<Rightarrow> (py_error + web_reply) \<times> web_session" where
  "start_quiz_web d rnd sess lvl now =
     (if ws_user_id sess = None then (Inr Authentication_required, sess)
      else
        (let quiz_data = fetch_quiz_data d rnd lvl;
             sess' = sess\<lparr>ws_current_quiz :=
                       Some \<lparr>wq_questions = quiz_data, wq_current = 0, wq_score = 0,
                             wq_wrong_answers = [], wq_start_time = now, wq_level = lvl\<rparr>\<rparr>
         in case py_index quiz_data 0 of
              Inl e \<Rightarrow> (Inl e, sess')
            | Inr q0 \<Rightarrow> (Inr (Started (int (length quiz_data)) q0), sess')))"

text \<open>The scoring step of \<^verbatim>\<open>submit_answer\<close>; \<open>answer\<close> is \<^verbatim>\<open>data.get('answer')\<close>, \<open>None\<close>
  when the request carries no integer.\<close>

definition score_answer_web :: "web_quiz \<Rightarrow> question \<Rightarrow> int option \<Rightarrow> web_quiz" where
  "score_answer_web qz q answer =
     (if answer = Some (q_correct q)
      then qz\<lparr>wq_current := wq_current qz + 1, wq_score := wq_score qz + 1\<rparr>
      else qz\<lparr>wq_current := wq_current qz + 1,
              wq_wrong_answers := wq_wrong_answers qz @ [q_id q]\<rparr>)"

text \<open>The block of \<^verbatim>\<open>submit_answer\<close> under \<^verbatim>\<open>if quiz['current'] >= len(quiz['questions'])\<close>:
  the result row is written under the user id offset by 10000. \<open>sess\<close> is the session
  after the scoring step and \<open>qz\<close> its quiz.\<close>

definition finish_web ::
  "db \<Rightarrow> web_session \<Rightarrow> int \<Rightarrow> web_quiz \<Rightarrow> bool \<Rightarrow> int
     \<Rightarrow> (py_error + web_reply) \<times> web_session \<times> db" where
  "finish_web d sess uid qz is_correct now =
     (let tot = int (length (wq_questions qz)); sc = wq_score qz
      in case determine_level sc tot of
           Inl e \<Rightarrow> (Inl e, sess, d)
         | Inr lvl \<Rightarrow>
             (let time_taken = now - wq_start_time qz;
                  d' = d\<lparr>results := results d @
                         [\<lparr>r_user_id = uid + 10000, r_level = lvl, r_score = sc,
                           r_total_questions = tot,
                           r_wrong_answers = Some (Wrong_ids (wq_wrong_answers qz)),
                           r_time_taken = time_taken\<rparr>]\<rparr>
              in (Inr (Finished_web is_correct
                         \<lparr>o_score = sc, o_total = tot, o_percentage = percentage_of sc tot,
                          o_level = lvl, o_time_taken = time_taken\<rparr>),
                  sess, d')))"

text \<open>\<^verbatim>\<open>submit_answer\<close>: the session entry stays in the cookie after the last answer.\<close>

definition submit_answer ::
  "db \<Rightarrow> web_session \<Rightarrow> int option \<Rightarrow> int
     \<Rightarrow> (py_error + web_reply) \<times> web_session \<times> db" where
  "submit_answer d sess answer now =
     (case ws_user_id sess of
        None \<Rightarrow> (Inr Authentication_required, sess, d)
      | Some uid \<Rightarrow>
     (case ws_current_quiz sess of
        None \<Rightarrow> (Inr No_active_quiz, sess, d)
      | Some qz \<Rightarrow>
     (case py_index (wq_questions qz) (wq_current qz) of
        Inl e \<Rightarrow> (Inl e, sess, d)
      | Inr current_q \<Rightarrow>
          (let is_correct = (answer = Some (q_correct current_q));
               qz' = score_answer_web qz current_q answer;
               sess' = sess\<lparr>ws_current_quiz := Some qz'\<rparr>
           in if int (length (wq_questions qz')) \<le> wq_current qz'
              then finish_web d sess' uid qz' is_correct now
              else
                (case py_index (wq_questions qz') (wq_current qz') of
                   Inl e \<Rightarrow> (Inl e, sess', d)
                 | Inr next_q \<Rightarrow>
                     (Inr (Next_question is_correct next_q (wq_current qz' + 1)
                             (int (length (wq_questions qz'))) (wq_score qz')),
                      sess', d))))))"

subsection \<open>Sequences of calls\<close>

text \<open>A user's answer callbacks in order, each with the answer index and the time of the
  call; the replies are collected.\<close>

fun answer_calls ::
  "db \<Rightarrow> quiz option \<Rightarrow> int \<Rightarrow> (int \<times> int) list
     \<Rightarrow> (py_error + bot_reply) list \<times> quiz option \<times> db" where
  "answer_calls d ctx uid [] = ([], ctx, d)"
| "answer_calls d ctx uid (c # cs) =
     (case answer_callback d ctx uid (fst c) (snd c) of
        (r, ctx', d') \<Rightarrow>
          (case answer_calls d' ctx' uid cs of
             (rs, ctx'', d'') \<Rightarrow> (r # rs, ctx'', d'')))"

fun submit_calls ::
  "db \<Rightarrow> web_session \<Rightarrow> (int option \<times> int) list
     \<Rightarrow> (py_error + web_reply) list \<times> web_session \<times> db" where
  "submit_calls d sess [] = ([], sess, d)"
| "submit_calls d sess (c # cs) =
     (case submit_answer d sess (fst c) (snd c) of
        (r, sess', d') \<Rightarrow>
          (case submit_calls d' sess' cs of
             (rs, sess'', d'') \<Rightarrow> (r # rs, sess'', d'')))"

text \<open>Hint callbacks of several users in order.\<close>

fun use_hint_calls :: "db \<Rightarrow> int list \<Rightarrow> db" where
  "use_hint_calls d [] = d"
| "use_hint_calls d (uid # uids) = use_hint_calls (snd (use_hint_callback d uid)) uids"

subsection \<open>Session invariants\<close>

definition quiz_inv :: "quiz \<Rightarrow> bool" where
  "quiz_inv data =
     (0 \<le> score data \<and> score data \<le> current data \<and>
      current data \<le> int (length (questions data)))"

definition ctx_inv :: "quiz option \<Rightarrow> bool" where
  "ctx_inv ctx = (case ctx of None \<Rightarrow> True | Some data \<Rightarrow> quiz_inv data)"

definition web_quiz_inv :: "web_quiz \<Rightarrow> bool" where
  "web_quiz_inv qz =
     (0 \<le> wq_score qz \<and> wq_score qz \<le> wq_current qz \<and>
      wq_current qz \<le> int (length (wq_questions qz)))"

definition web_inv :: "web_session \<Rightarrow> bool" where
  "web_inv sess = (case ws_current_quiz sess of None \<Rightarrow> True | Some qz \<Rightarrow> web_quiz_inv qz)"

text \<open>Every processed answer is counted once, in the score or in the wrong-answer list.\<close>

definition quiz_counted :: "quiz \<Rightarrow> bool" where
  "quiz_counted data = (score data + int (length (wrong_answers data)) = current data)"

definition ctx_counted :: "quiz option \<Rightarrow> bool" where
  "ctx_counted ctx = (case ctx of None \<Rightarrow> True | Some data \<Rightarrow> quiz_counted data)"

definition web_quiz_counted :: "web_quiz \<Rightarrow> bool" where
  "web_quiz_counted qz = (wq_score qz + int (length (wq_wrong_answers qz)) = wq_current qz)"

definition web_counted :: "web_session \<Rightarrow> bool" where
  "web_counted sess =
     (case ws_current_quiz sess of None \<Rightarrow> True | Some qz \<Rightarrow> web_quiz_counted qz)"

text \<open>The number of entries of the wrong-answer list stored in a result row.\<close>

definition wrong_entries :: "result_row \<Rightarrow> nat" where
  "wrong_entries r =
     (case r_wrong_answers r of
        None \<Rightarrow> 0
      | Some (Wrong_questions qs) \<Rightarrow> length qs
      | Some (Wrong_ids is) \<Rightarrow> length is)"

subsection \<open>Example databases and sessions\<close>

definition empty_db :: db where
  "empty_db = \<lparr>english_levels = [], questions_tbl = [], results = [],
               daily_bonus = Map.empty, user_hints = Map.empty\<rparr>"

definition mk_row :: "int \<Rightarrow> int \<Rightarrow> int \<Rightarrow> question_row" where
  "mk_row i lid c =
     \<lparr>qr_id = i, qr_level_id = lid, qr_question_text = ''q'', qr_options = [''a'', ''b''],
      qr_correct_answer = c\<rparr>"

definition mk_question :: "int \<Rightarrow> string \<Rightarrow> int \<Rightarrow> question" where
  "mk_question i lvl c =
     \<lparr>q_id = i, q_text = ''q'', q_options = [''a'', ''b''], q_correct = c, q_level = lvl\<rparr>"

definition two_levels :: "level_row list" where
  "two_levels = [\<lparr>l_id = 1, l_level = ''A1'', l_description = ''Beginner''\<rparr>,
                 \<lparr>l_id = 3, l_level = ''B1'', l_description = ''Intermediate''\<rparr>]"

text \<open>Five A1 questions, each with the correct option 0.\<close>

definition five_db :: db where
  "five_db = empty_db\<lparr>english_levels := two_levels,
               questions_tbl := [mk_row 1 1 0, mk_row 2 1 0, mk_row 3 1 0, mk_row 4 1 0,
                                 mk_row 5 1 0]\<rparr>"

text \<open>Three A1 questions stored in the order 3, 1, 2.\<close>

definition unordered_db :: db where
  "unordered_db = empty_db\<lparr>english_levels := two_levels,
               questions_tbl := [mk_row 3 1 0, mk_row 1 1 0, mk_row 2 1 0]\<rparr>"

text \<open>The pool of the scenario of the specification: Q1 with the correct option 0 and Q2
  with the correct option 1.\<close>

definition two_db :: db where
  "two_db = empty_db\<lparr>english_levels := two_levels,
               questions_tbl := [mk_row 1 1 0, mk_row 2 1 1]\<rparr>"

definition logged_in :: web_session where
  "logged_in = \<lparr>ws_user_id = Some 1, ws_current_quiz = None\<rparr>"

text \<open>A B1-only bot session and a full-test bot session, each before its last answer, with
  18 of 19 answers correct so far.\<close>

definition last_answer_session :: "string \<Rightarrow> quiz" where
  "last_answer_session lvl =
     \<lparr>questions = replicate 20 (mk_question 1 ''B1'' 0), current = 19, score = 18, level = lvl,
      lives = 2, wrong_answers = [mk_question 1 ''B1'' 0], start_time = 0, user_id = 7\<rparr>"

text \<open>A user with one hint, and the database after the first bonus claim of a day.\<close>

definition one_hint_db :: db where
  "one_hint_db = empty_db\<lparr>user_hints := [7 \<mapsto> 1]\<rparr>"

definition claimed_db :: db where
  "claimed_db = snd (get_daily_bonus empty_db 7 ''2026-01-05'')"

text \<open>The same position in the web application, with the requested level as parameter.\<close>

definition last_answer_web :: "string option \<Rightarrow> web_session" where
  "last_answer_web lvl =
     \<lparr>ws_user_id = Some 1,
      ws_current_quiz = Some \<lparr>wq_questions = replicate 20 (mk_question 1 ''B1'' 0),
                              wq_current = 19, wq_score = 18, wq_wrong_answers = [1],
                              wq_start_time = 0, wq_level = lvl\<rparr>\<rparr>"

text \<open>Three wrong answers in a row on the pool of five questions.\<close>

definition three_wrong_calls :: "(int \<times> int) list" where
  "three_wrong_calls = [(1, 10), (1, 20), (1, 30)]"

definition three_wrong_run :: "(py_error + bot_reply) list \<times> quiz option \<times> db" where
  "three_wrong_run =
     answer_calls five_db (snd (start_quiz five_db None 7 ''A1'' 0)) 7 three_wrong_calls"

text \<open>The bot session and the web session right after a start on \<open>two_db\<close> for the level
  A1 at time 100 (the web rows drawn with the random keys 0, 1).\<close>

definition two_quiz :: quiz where
  "two_quiz =
     \<lparr>questions = [mk_question 1 ''A1'' 0, mk_question 2 ''A1'' 1], current = 0, score = 0,
      level = ''A1'', lives = 3, wrong_answers = [], start_time = 100, user_id = 7\<rparr>"

definition two_web_quiz :: web_quiz where
  "two_web_quiz =
     \<lparr>wq_questions = [mk_question 1 ''A1'' 0, mk_question 2 ''A1'' 1], wq_current = 0,
      wq_score = 0, wq_wrong_answers = [], wq_start_time = 100, wq_level = Some ''A1''\<rparr>"

text \<open>The bot session right after a start on \<open>five_db\<close> for the level A1 at time 0, and
  the same session after two wrong answers.\<close>

definition five_quiz :: quiz where
  "five_quiz =
     \<lparr>questions = [mk_question 1 ''A1'' 0, mk_question 2 ''A1'' 0, mk_question 3 ''A1'' 0,
                   mk_question 4 ''A1'' 0, mk_question 5 ''A1'' 0],
      current = 0, score = 0, level = ''A1'', lives = 3, wrong_answers = [], start_time = 0,
      user_id = 7\<rparr>"

definition five_quiz_two_wrong :: quiz where
  "five_quiz_two_wrong =
     five_quiz\<lparr>current := 2, lives := 1,
               wrong_answers := [mk_question 1 ''A1'' 0, mk_question 2 ''A1'' 0]\<rparr>"

text \<open>The result row that the third wrong answer stores.\<close>

definition three_wrong_row :: result_row where
  "three_wrong_row =
     \<lparr>r_user_id = 7, r_level = ''A1'', r_score = 0, r_total_questions = 5,
      r_wrong_answers = Some (Wrong_questions [mk_question 1 ''A1'' 0, mk_question 2 ''A1'' 0,
                                                mk_question 3 ''A1'' 0]),
      r_time_taken = 30\<rparr>"

text \<open>The scenario of the specification on \<open>two_db\<close>: the first answer was right, the
  second one (option 0 for Q2) is wrong. The sessions before the second answer and the
  result rows that it stores, in the bot and in the web application.\<close>

definition two_quiz_second :: quiz where
  "two_quiz_second = two_quiz\<lparr>current := 1, score := 1\<rparr>"

definition two_web_second :: web_session where
  "two_web_second =
     logged_in\<lparr>ws_current_quiz := Some (two_web_quiz\<lparr>wq_current := 1, wq_score := 1\<rparr>)\<rparr>"

definition two_row :: result_row where
  "two_row =
     \<lparr>r_user_id = 7, r_level = ''A1'', r_score = 1, r_total_questions = 2,
      r_wrong_answers = Some (Wrong_questions [mk_question 2 ''A1'' 1]), r_time_taken = 30\<rparr>"

definition two_web_row :: result_row where
  "two_web_row =
     \<lparr>r_user_id = 10001, r_level = ''A1'', r_score = 1, r_total_questions = 2,
      r_wrong_answers = Some (Wrong_ids [2]), r_time_taken = 30\<rparr>"

section \<open>Properties\<close>

subsection \<open>Hint consumption\<close>

lemma use_hint_balance:
  "get_user_hints (use_hint d uid) uid =
     (if 0 < get_user_hints d uid then get_user_hints d uid - 1 else get_user_hints d uid)"
  by (simp add: use_hint_def get_user_hints_def split: option.splits)

lemma use_hint_other:
  "v \<noteq> uid \<Longrightarrow> get_user_hints (use_hint d uid) v = get_user_hints d v"
  by (simp add: use_hint_def get_user_hints_def split: option.splits)

lemma use_hint_unchanged: "get_user_hints d uid \<le> 0 \<Longrightarrow> use_hint d uid = d"
  by (simp add: use_hint_def get_user_hints_def split: option.splits)

lemma use_hint_callback_nonneg:
  "0 \<le> get_user_hints d v \<Longrightarrow> 0 \<le> get_user_hints (snd (use_hint_callback d uid)) v"
  by (cases "v = uid") (simp_all add: use_hint_callback_def use_hint_balance use_hint_other)

lemma use_hint_calls_nonneg:
  "0 \<le> get_user_hints d v \<Longrightarrow> 0 \<le> get_user_hints (use_hint_calls d uids) v"
  by (induction uids arbitrary: d) (simp_all add: use_hint_callback_nonneg)

lemma one_hint: "get_user_hints one_hint_db 7 = 1"
  by (simp add: one_hint_db_def get_user_hints_def empty_db_def)

lemma no_hint: "get_user_hints empty_db 7 = 0"
  by (simp add: get_user_hints_def empty_db_def)

text \<open>
  \<^bold>\<open>C5.\<close> A hint callback takes one hint off a strictly positive balance and reports the
  hint as used; on a balance that is not positive it reports that there is no hint and
  leaves the database as it is, and so does the update statement of \<^verbatim>\<open>use_hint\<close> alone.
  A balance that is not negative stays so under every sequence of hint callbacks, of this
  user and of others.
\<close>

theorem use_hint_never_negative:
  "(0 < get_user_hints d uid \<longrightarrow>
      fst (use_hint_callback d uid) = Hint_used \<and>
      get_user_hints (snd (use_hint_callback d uid)) uid = get_user_hints d uid - 1) \<and>
   (get_user_hints d uid \<le> 0 \<longrightarrow>
      use_hint_callback d uid = (No_hint, d) \<and> use_hint d uid = d) \<and>
   (0 \<le> get_user_hints d uid \<longrightarrow> 0 \<le> get_user_hints (use_hint_calls d uids) uid)"
  by (simp add: use_hint_callback_def use_hint_balance use_hint_calls_nonneg
        use_hint_unchanged)

theorem use_hint_never_negative_witness:
  "0 < get_user_hints one_hint_db 7 \<and>
   fst (use_hint_callback one_hint_db 7) = Hint_used \<and>
   get_user_hints (snd (use_hint_callback one_hint_db 7)) 7 = 0 \<and>
   get_user_hints empty_db 7 \<le> 0 \<and>
   use_hint_callback empty_db 7 = (No_hint, empty_db) \<and>
   use_hint empty_db 7 = empty_db \<and>
   0 \<le> get_user_hints (use_hint_calls one_hint_db [7, 7, 7]) 7"
  using use_hint_never_negative [of one_hint_db 7 "[7, 7, 7]"]
        use_hint_never_negative [of empty_db 7 "[]"]
  by (simp add: one_hint no_hint)

subsection \<open>Daily bonus\<close>

lemma get_daily_bonus_again:
  "get_daily_bonus (snd (get_daily_bonus d uid today)) uid today =
     (fst (get_daily_bonus d uid today), snd (get_daily_bonus d uid today))"
  by (simp add: get_daily_bonus_def split: option.splits)

lemma get_daily_bonus_fresh:
  "daily_bonus d (uid, today) = None \<Longrightarrow>
     fst (get_daily_bonus d uid today) = 1 \<and>
     get_user_hints (snd (get_daily_bonus d uid today)) uid = get_user_hints d uid + 1 \<and>
     daily_bonus (snd (get_daily_bonus d uid today)) (uid, today) = Some 1"
  by (simp add: get_daily_bonus_def get_user_hints_def split: option.splits)

lemma get_daily_bonus_claimed:
  "daily_bonus d (uid, today) = Some c \<Longrightarrow> get_daily_bonus d uid today = (c, d)"
  by (simp add: get_daily_bonus_def)

lemma claim_daily_bonus_db:
  "snd (claim_daily_bonus d uid today) = snd (get_daily_bonus d uid today)"
  by (simp add: claim_daily_bonus_def split: prod.splits)

lemma claim_daily_bonus_reply:
  "fst (claim_daily_bonus d uid today) =
     (if fst (get_daily_bonus d uid today) \<noteq> 0
      then Already_claimed (get_user_hints (snd (get_daily_bonus d uid today)) uid)
      else Bonus_granted)"
  by (simp add: claim_daily_bonus_def split: prod.splits)

lemma empty_unclaimed: "daily_bonus empty_db (7, ''2026-01-05'') = None"
  by (simp add: empty_db_def)

lemma claimed_db_row: "daily_bonus claimed_db (7, ''2026-01-05'') = Some 1"
  by (simp add: claimed_db_def get_daily_bonus_def empty_db_def)

lemma claimed_db_hints: "get_user_hints claimed_db 7 = 1"
  by (simp add: claimed_db_def get_daily_bonus_def empty_db_def get_user_hints_def)

text \<open>
  \<^bold>\<open>C6.\<close> A second bonus claim of a user on the same date never changes the database.
  When the user's bonus of that date is unclaimed, two claims on that date raise the hint
  balance by exactly one in total: the first claim adds one hint, the second leaves the
  database as the first left it and reports the bonus as already claimed.
\<close>

theorem daily_bonus_once_per_day:
  "snd (claim_daily_bonus (snd (claim_daily_bonus d uid today)) uid today) =
     snd (claim_daily_bonus d uid today) \<and>
   (daily_bonus d (uid, today) = None \<longrightarrow>
      get_user_hints (snd (claim_daily_bonus d uid today)) uid = get_user_hints d uid + 1 \<and>
      get_user_hints (snd (claim_daily_bonus (snd (claim_daily_bonus d uid today)) uid today))
        uid = get_user_hints d uid + 1 \<and>
      fst (claim_daily_bonus (snd (claim_daily_bonus d uid today)) uid today) =
        Already_claimed (get_user_hints d uid + 1))"
  by (simp add: claim_daily_bonus_db claim_daily_bonus_reply get_daily_bonus_again
        get_daily_bonus_fresh)

theorem daily_bonus_once_per_day_witness:
  "daily_bonus empty_db (7, ''2026-01-05'') = None \<and>
   get_user_hints empty_db 7 = 0 \<and>
   get_user_hints (snd (claim_daily_bonus empty_db 7 ''2026-01-05'')) 7 = 1 \<and>
   get_user_hints (snd (claim_daily_bonus (snd (claim_daily_bonus empty_db 7 ''2026-01-05''))
     7 ''2026-01-05'')) 7 = 1 \<and>
   snd (claim_daily_bonus (snd (claim_daily_bonus empty_db 7 ''2026-01-05'')) 7 ''2026-01-05'') =
     snd (claim_daily_bonus empty_db 7 ''2026-01-05'') \<and>
   fst (claim_daily_bonus (snd (claim_daily_bonus empty_db 7 ''2026-01-05'')) 7 ''2026-01-05'') =
     Already_claimed 1"
  using daily_bonus_once_per_day [of empty_db 7 "''2026-01-05''"]
  by (simp add: no_hint empty_unclaimed)

text \<open>
  \<^bold>\<open>C10.\<close> \<^verbatim>\<open>get_daily_bonus\<close> returns 1 when it has just granted the bonus (it adds the
  hint and stores the row with the flag 1) and returns 1 again when it finds that row on
  a later call, so the return value does not tell a fresh grant from a repeated claim; the
  handler answers with the already-claimed message in both cases, the first claim of the
  day included.
\<close>

theorem daily_bonus_return_value:
  "(daily_bonus d (uid, today) = None \<longrightarrow>
      fst (get_daily_bonus d uid today) = 1 \<and>
      get_user_hints (snd (get_daily_bonus d uid today)) uid = get_user_hints d uid + 1 \<and>
      daily_bonus (snd (get_daily_bonus d uid today)) (uid, today) = Some 1 \<and>
      fst (claim_daily_bonus d uid today) = Already_claimed (get_user_hints d uid + 1)) \<and>
   (daily_bonus d (uid, today) = Some 1 \<longrightarrow>
      get_daily_bonus d uid today = (1, d) \<and>
      fst (claim_daily_bonus d uid today) = Already_claimed (get_user_hints d uid))"
  by (simp add: claim_daily_bonus_reply get_daily_bonus_fresh get_daily_bonus_claimed)

theorem daily_bonus_return_value_witness:
  "daily_bonus empty_db (7, ''2026-01-05'') = None \<and>
   fst (get_daily_bonus empty_db 7 ''2026-01-05'') = 1 \<and>
   fst (claim_daily_bonus empty_db 7 ''2026-01-05'') = Already_claimed 1 \<and>
   daily_bonus claimed_db (7, ''2026-01-05'') = Some 1 \<and>
   get_daily_bonus claimed_db 7 ''2026-01-05'' = (1, claimed_db) \<and>
   fst (claim_daily_bonus claimed_db 7 ''2026-01-05'') = Already_claimed 1"
  using daily_bonus_return_value [of empty_db 7 "''2026-01-05''"]
        daily_bonus_return_value [of claimed_db 7 "''2026-01-05''"]
  by (simp add: empty_unclaimed no_hint claimed_db_row claimed_db_hints)

subsection \<open>Level determination and the end of a session\<close>

lemma percentage_examples:
  "percentage_of 9 10 = 90" "percentage_of 8 10 = 80" "percentage_of 7 10 = 70"
  "percentage_of 6 10 = 60" "percentage_of 5 10 = 50" "percentage_of 19 20 = 95"
  "percentage_of 1 1 = 100" "percentage_of 0 5 = 0" "percentage_of 1 2 = 50"
  by code_simp+

lemma determined_level_examples:
  "determined_level 90 = ''C1''" "determined_level 80 = ''B2''" "determined_level 70 = ''B1''"
  "determined_level 60 = ''A2''" "determined_level 50 = ''A1''" "determined_level 95 = ''C1''"
  "determined_level 100 = ''C1''" "determined_level 0 = ''A1''"
  by (simp_all add: determined_level_def)

lemma percentage_zero: "percentage_of 0 n = 0"
  by (simp add: percentage_of_def round_double_def)

text \<open>
  The percentage in binary64 against exact arithmetic. Rounding to a double changes a
  value of the normal range by at most the factor \<open>1 \<plusminus> 2^-53\<close>; two roundings cannot
  carry a percentage across one of the thresholds 60, 70, 80, 90 while the total is at most
  \<open>2^40\<close>, since a quotient that is not on the threshold is at least \<open>1 / total\<close> away
  from it, and the four quotients on a threshold evaluate to the threshold exactly.
\<close>

lemma scale2_powi: "scale2 x e = x * 2 powi e"
  by (simp add: scale2_def power_int_def field_simps)

lemma round_half_even_err: "\<bar>of_int (round_half_even y) - y\<bar> \<le> 1 / 2"
proof -
  have "of_int \<lfloor>y\<rfloor> \<le> y" "y < of_int \<lfloor>y\<rfloor> + 1" by linarith+
  then show ?thesis
    by (auto simp add: round_half_even_def Let_def)
qed

lemma ilog2_le:
  assumes "0 < x"
  shows "2 powi (ilog2 x) \<le> x"
proof -
  obtain a b where ab: "quotient_of x = (a, b)" by (cases "quotient_of x")
  then have b: "0 < b" by (rule quotient_of_denom_pos)
  from ab have x: "x = of_int a / of_int b" by (rule quotient_of_div)
  from assms x b have a: "0 < a" by (simp add: zero_less_divide_iff)
  let ?k = "bitlen a - bitlen b"
  show ?thesis
  proof (cases "scale2 1 ?k \<le> x")
    case True
    then show ?thesis by (simp add: ilog2_def ab scale2_powi)
  next
    case False
    then have il: "ilog2 x = ?k - 1" by (simp add: ilog2_def ab)
    from bitlen_bounds [OF a] have la: "2 ^ nat (bitlen a - 1) \<le> a" by simp
    from bitlen_bounds [OF b] have lb: "b < 2 ^ nat (bitlen b)" by simp
    from a have a1: "1 \<le> bitlen a" by (simp add: bitlen_alt_def)
    from b have b1: "1 \<le> bitlen b" by (simp add: bitlen_alt_def)
    from la have la': "(2::rat) ^ nat (bitlen a - 1) \<le> of_int a"
      by (metis of_int_le_iff of_int_numeral of_int_power)
    from lb have lb': "of_int b \<le> (2::rat) ^ nat (bitlen b)"
      by (metis less_imp_le of_int_le_iff of_int_numeral of_int_power)
    have "(2::rat) powi (?k - 1) = 2 powi ((bitlen a - 1) - bitlen b)"
      by (simp add: algebra_simps)
    also have "\<dots> = 2 powi (bitlen a - 1) / 2 powi (bitlen b)"
      by (rule power_int_diff) simp
    also have "\<dots> = 2 ^ nat (bitlen a - 1) / 2 ^ nat (bitlen b)"
      using a1 b1 by (simp add: power_int_def)
    also have "\<dots> \<le> of_int a / of_int b"
      using la' lb' b a by (intro frac_le) simp_all
    finally show ?thesis using il x by simp
  qed
qed

lemma round_double_err:
  assumes x: "2 powi (- 1022) \<le> x"
  shows "\<bar>round_double x - x\<bar> \<le> x * 2 powi (- 53)"
proof -
  have p: "(0::rat) < 2 powi (- 1022)" by simp
  with x have x0: "0 < x" by linarith
  define e where "e = max (ilog2 x - 52) (- 1074)"
  define y where "y = x * 2 powi (- e)"
  have e0: "(0::rat) < 2 powi e" by simp
  have yx: "y * 2 powi e = x"
    by (simp add: y_def power_int_minus field_simps)
  have rd: "round_double x = of_int (round_half_even y) * 2 powi e"
    using x0 by (simp add: round_double_def Let_def e_def y_def scale2_powi)
  have "round_double x - x = (of_int (round_half_even y) - y) * 2 powi e"
    by (simp only: rd left_diff_distrib yx)
  then have "\<bar>round_double x - x\<bar> = \<bar>of_int (round_half_even y) - y\<bar> * 2 powi e"
    by (simp only: abs_mult abs_of_pos [OF e0])
  also have "\<dots> \<le> 1 / 2 * 2 powi e"
    using round_half_even_err [of y] e0 by (intro mult_right_mono) simp_all
  also have "\<dots> = 2 powi (e - 1)"
    by (simp add: power_int_diff)
  also have "\<dots> \<le> x * 2 powi (- 53)"
  proof (cases "ilog2 x - 52 \<le> - 1074")
    case True
    then have "e = - 1074" by (simp add: e_def)
    then have "(2::rat) powi (e - 1) = 2 powi (- 1022) * 2 powi (- 53)"
      by (simp add: power_int_add [symmetric])
    also have "\<dots> \<le> x * 2 powi (- 53)"
      using x by (intro mult_right_mono) simp_all
    finally show ?thesis .
  next
    case False
    then have "e = ilog2 x - 52" by (simp add: e_def)
    then have "(2::rat) powi (e - 1) = 2 powi (ilog2 x + (- 53))"
      by simp
    also have "\<dots> = 2 powi (ilog2 x) * 2 powi (- 53)"
      by (rule power_int_add) simp
    also have "\<dots> \<le> x * 2 powi (- 53)"
      using ilog2_le [OF x0] by (intro mult_right_mono) simp_all
    finally show ?thesis .
  qed
  finally show ?thesis .
qed


lemma round_double_bounds:
  assumes "2 powi (- 1022) \<le> x" and u: "u = 2 powi (- 53)"
  shows "x * (1 - u) \<le> round_double x"
    and "round_double x \<le> x * (1 + u)"
proof -
  from round_double_err [OF assms(1)] have "\<bar>round_double x - x\<bar> \<le> x * u"
    by (simp only: u)
  then have "- (x * u) \<le> round_double x - x" "round_double x - x \<le> x * u"
    by linarith+
  then show "x * (1 - u) \<le> round_double x" "round_double x \<le> x * (1 + u)"
    by (simp_all add: algebra_simps)
qed

lemma tiny_le: "(2::rat) powi (- 1022) \<le> 1 / 2 ^ 41"
proof -
  have "(2::rat) powi (- 1022) \<le> 2 powi (- 41)"
    by (rule power_int_increasing) simp_all
  also have "\<dots> = 1 / 2 ^ 41"
    by (simp add: power_int_minus field_simps)
  finally show ?thesis .
qed

lemma percentage_bounds:
  assumes sc: "0 < sc" and tot: "0 < tot" "tot \<le> 2 ^ 40"
    and u: "u = 2 powi (- 53)" and q: "q = of_int sc / of_int tot"
  shows "100 * q * ((1 - u) * (1 - u)) \<le> percentage_of sc tot"
    and "percentage_of sc tot \<le> 100 * q * ((1 + u) * (1 + u))"
proof -
  from tot have t: "(0::rat) < of_int tot" "(of_int tot :: rat) \<le> 2 ^ 40"
    by (simp, metis of_int_le_iff of_int_numeral of_int_power)
  from sc have s: "(1::rat) \<le> of_int sc" by (simp add: int_one_le_iff_zero_less [symmetric])
  have "1 / 2 ^ 40 \<le> 1 / (of_int tot :: rat)"
    using t by (intro divide_left_mono) simp_all
  also have "\<dots> \<le> q"
    unfolding q using s t by (intro divide_right_mono) simp_all
  finally have q40: "1 / 2 ^ 40 \<le> q" .
  then have q0: "0 < q" by (rule less_le_trans [rotated]) simp
  from q40 have "1 / 2 ^ 41 \<le> q" by simp
  with tiny_le have q1: "2 powi (- 1022) \<le> q" by (rule order_trans)
  note b1 = round_double_bounds [OF q1 u]
  have half: "(1::rat) / 2 \<le> 1 - u" by (simp add: u)
  have u1: "0 \<le> 1 - u" "0 \<le> 1 + u" by (simp_all add: u)
  have "1 / 2 ^ 41 \<le> q * (1 / 2)" using q40 by simp
  also have "\<dots> \<le> q * (1 - u)" using q0 half by (intro mult_left_mono) simp_all
  also have "\<dots> \<le> round_double q" by (rule b1(1))
  finally have f41: "1 / 2 ^ 41 \<le> round_double q" .
  then have f0: "0 < round_double q" by (rule less_le_trans [rotated]) simp
  from f0 have "round_double q \<le> round_double q * 100" by simp
  with f41 have "1 / 2 ^ 41 \<le> round_double q * 100" by (rule order_trans)
  with tiny_le have q2: "2 powi (- 1022) \<le> round_double q * 100" by (rule order_trans)
  note b2 = round_double_bounds [OF q2 u]
  have p: "percentage_of sc tot = round_double (round_double q * 100)"
    by (simp add: percentage_of_def q)
  have "100 * q * ((1 - u) * (1 - u)) = q * (1 - u) * 100 * (1 - u)" by simp
  also have "\<dots> \<le> round_double q * 100 * (1 - u)"
    using b1(1) u1 by (intro mult_right_mono) simp_all
  also have "\<dots> \<le> percentage_of sc tot" unfolding p by (rule b2(1))
  finally show "100 * q * ((1 - u) * (1 - u)) \<le> percentage_of sc tot" .
  have "percentage_of sc tot \<le> round_double q * 100 * (1 + u)" unfolding p by (rule b2(2))
  also have "\<dots> \<le> q * (1 + u) * 100 * (1 + u)"
    using b1(2) u1 by (intro mult_right_mono) simp_all
  also have "\<dots> = 100 * q * ((1 + u) * (1 + u))" by simp
  finally show "percentage_of sc tot \<le> 100 * q * ((1 + u) * (1 + u))" .
qed


lemma percentage_below:
  assumes sc: "0 < sc" and tot: "0 < tot" "tot \<le> 2 ^ 40"
    and T: "0 \<le> T" "T \<le> 100" and lt: "100 * sc < T * tot"
  shows "percentage_of sc tot < of_int T"
proof -
  define u :: rat where "u = 2 powi (- 53)"
  define q :: rat where "q = of_int sc / of_int tot"
  define r :: rat where "r = 1 / of_int tot"
  define t :: rat where "t = of_int T"
  from tot have tt: "(0::rat) < of_int tot" "(of_int tot :: rat) \<le> 2 ^ 40"
    by (simp, metis of_int_le_iff of_int_numeral of_int_power)
  have r40: "1 / 2 ^ 40 \<le> r"
    unfolding r_def using tt by (intro divide_left_mono) simp_all
  then have r0: "0 < r" by (rule less_le_trans [rotated]) simp
  from T have t100: "0 \<le> t" "t \<le> 100" by (simp_all add: t_def)
  from lt have "100 * sc + 1 \<le> T * tot" by simp
  then have "(of_int (100 * sc + 1) :: rat) \<le> of_int (T * tot)" by (simp only: of_int_le_iff)
  then have "100 * of_int sc + 1 \<le> t * (of_int tot :: rat)" by (simp add: t_def)
  then have "(100 * of_int sc + 1) / of_int tot \<le> t * (of_int tot :: rat) / of_int tot"
    using tt by (intro divide_right_mono) simp_all
  then have qr: "100 * q \<le> t - r"
    using tt by (simp add: q_def r_def add_divide_distrib)
  have c1: "1 \<le> (1 + u) * (1 + u)" by (simp add: u_def)
  have c0: "0 \<le> 2 * u + u * u" by (simp add: u_def)
  have "percentage_of sc tot \<le> 100 * q * ((1 + u) * (1 + u))"
    by (rule percentage_bounds(2) [OF sc tot u_def q_def])
  also have "\<dots> \<le> (t - r) * ((1 + u) * (1 + u))"
    using qr c1 by (intro mult_right_mono) simp_all
  also have "\<dots> = t + (t * (2 * u + u * u) - r * ((1 + u) * (1 + u)))"
    by (simp add: algebra_simps)
  also have "\<dots> < t"
  proof -
    have "t * (2 * u + u * u) \<le> 100 * (2 * u + u * u)"
      using t100 c0 by (intro mult_right_mono) simp_all
    also have "\<dots> < 1 / 2 ^ 40" by (simp add: u_def)
    also have "\<dots> \<le> r" by (rule r40)
    also have "r = r * 1" by simp
    also have "\<dots> \<le> r * ((1 + u) * (1 + u))"
      using r0 c1 by (intro mult_left_mono) simp_all
    finally show ?thesis by simp
  qed
  finally show ?thesis by (simp add: t_def)
qed

lemma percentage_above:
  assumes sc: "0 < sc" and tot: "0 < tot" "tot \<le> 2 ^ 40"
    and T: "0 \<le> T" "T \<le> 100" and gt: "T * tot < 100 * sc"
  shows "of_int T \<le> percentage_of sc tot"
proof -
  define u :: rat where "u = 2 powi (- 53)"
  define q :: rat where "q = of_int sc / of_int tot"
  define r :: rat where "r = 1 / of_int tot"
  define t :: rat where "t = of_int T"
  from tot have tt: "(0::rat) < of_int tot" "(of_int tot :: rat) \<le> 2 ^ 40"
    by (simp, metis of_int_le_iff of_int_numeral of_int_power)
  have r40: "1 / 2 ^ 40 \<le> r"
    unfolding r_def using tt by (intro divide_left_mono) simp_all
  then have r0: "0 < r" by (rule less_le_trans [rotated]) simp
  from T have t100: "0 \<le> t" "t \<le> 100" by (simp_all add: t_def)
  from gt have "T * tot + 1 \<le> 100 * sc" by simp
  then have "(of_int (T * tot + 1) :: rat) \<le> of_int (100 * sc)" by (simp only: of_int_le_iff)
  then have "t * (of_int tot :: rat) + 1 \<le> 100 * of_int sc" by (simp add: t_def)
  then have "(t * (of_int tot :: rat) + 1) / of_int tot \<le> 100 * of_int sc / of_int tot"
    using tt by (intro divide_right_mono) simp_all
  then have qr: "t + r \<le> 100 * q"
    using tt by (simp add: q_def r_def add_divide_distrib)
  have c1: "0 \<le> (1 - u) * (1 - u)" by (simp add: u_def)
  have c2: "200 * u \<le> 1 / 2 ^ 40 * ((1 - u) * (1 - u))" by (simp add: u_def)
  have c0: "0 \<le> 2 * u - u * u" by (simp add: u_def)
  have "t \<le> t + (r * ((1 - u) * (1 - u)) - t * (2 * u - u * u))"
  proof -
    have "t * (2 * u - u * u) \<le> 100 * (2 * u - u * u)"
      using t100 c0 by (intro mult_right_mono) simp_all
    also have "\<dots> \<le> 200 * u" by (simp add: u_def)
    also have "\<dots> \<le> 1 / 2 ^ 40 * ((1 - u) * (1 - u))" by (rule c2)
    also have "\<dots> \<le> r * ((1 - u) * (1 - u))"
      using r40 c1 by (intro mult_right_mono) simp_all
    finally show ?thesis by simp
  qed
  also have "\<dots> = (t + r) * ((1 - u) * (1 - u))"
    by (simp add: algebra_simps)
  also have "\<dots> \<le> 100 * q * ((1 - u) * (1 - u))"
    using qr c1 by (intro mult_right_mono) simp_all
  also have "\<dots> \<le> percentage_of sc tot"
    by (rule percentage_bounds(1) [OF sc tot u_def q_def])
  finally show ?thesis by (simp add: t_def)
qed

lemma percentage_exact:
  "round_double (round_double (9 / 10) * 100) = 90"
  "round_double (round_double (4 / 5) * 100) = 80"
  "round_double (round_double (7 / 10) * 100) = 70"
  "round_double (round_double (3 / 5) * 100) = 60"
  by code_simp+

lemma percentage_at:
  assumes tot: "0 < tot" and eq: "100 * sc = T * tot"
    and T: "T = 90 \<or> T = 80 \<or> T = 70 \<or> T = 60"
  shows "percentage_of sc tot = of_int T"
proof -
  from tot have tt: "(of_int tot :: rat) \<noteq> 0" by simp
  from eq have "(of_int (100 * sc) :: rat) = of_int (T * tot)" by simp
  then have "100 * (of_int sc :: rat) = of_int T * of_int tot" by simp
  with tt have q: "(of_int sc :: rat) / of_int tot = of_int T / 100"
    by (simp add: field_simps)
  from T show ?thesis
    by (auto simp add: percentage_of_def q percentage_exact)
qed

lemma percentage_threshold:
  assumes sc: "0 \<le> sc" and tot: "0 < tot" "tot \<le> 2 ^ 40"
    and T: "T = 90 \<or> T = 80 \<or> T = 70 \<or> T = 60"
  shows "of_int T \<le> percentage_of sc tot \<longleftrightarrow> T * tot \<le> 100 * sc"
proof (cases "sc = 0")
  case True
  with tot T show ?thesis by (auto simp add: percentage_zero)
next
  case False
  with sc have s: "0 < sc" by simp
  from T have T': "0 \<le> T" "T \<le> 100" by auto
  consider "100 * sc < T * tot" | "100 * sc = T * tot" | "T * tot < 100 * sc" by linarith
  then show ?thesis
  proof cases
    case 1
    from percentage_below [OF s tot T' 1] 1 show ?thesis by simp
  next
    case 2
    from percentage_at [OF tot(1) 2 T] 2 show ?thesis by simp
  next
    case 3
    from percentage_above [OF s tot T' 3] 3 show ?thesis by simp
  qed
qed

lemma determine_level_exact:
  assumes "0 \<le> sc" "0 < tot" "tot \<le> 2 ^ 40"
  shows "determine_level sc tot =
     Inr (if 9 * tot \<le> 10 * sc then ''C1''
          else if 8 * tot \<le> 10 * sc then ''B2''
          else if 7 * tot \<le> 10 * sc then ''B1''
          else if 6 * tot \<le> 10 * sc then ''A2''
          else ''A1'')"
proof -
  have "90 \<le> percentage_of sc tot \<longleftrightarrow> 9 * tot \<le> 10 * sc"
    using percentage_threshold [OF assms, of 90] by simp
  moreover have "80 \<le> percentage_of sc tot \<longleftrightarrow> 8 * tot \<le> 10 * sc"
    using percentage_threshold [OF assms, of 80] by simp
  moreover have "70 \<le> percentage_of sc tot \<longleftrightarrow> 7 * tot \<le> 10 * sc"
    using percentage_threshold [OF assms, of 70] by simp
  moreover have "60 \<le> percentage_of sc tot \<longleftrightarrow> 6 * tot \<le> 10 * sc"
    using percentage_threshold [OF assms, of 60] by simp
  ultimately show ?thesis
    using assms by (simp add: determine_level_def determined_level_def)
qed

lemma score_answer_questions [simp]: "questions (score_answer data q a) = questions data"
  by (simp add: score_answer_def)

lemma score_answer_current [simp]: "current (score_answer data q a) = current data + 1"
  by (simp add: score_answer_def)

lemma finish_quiz_db:
  "tot \<noteq> 0 \<Longrightarrow>
     snd (snd (finish_quiz d data uid sc tot now)) =
       save_result d uid (determined_level (percentage_of sc tot)) sc tot (wrong_answers data)
         (now - start_time data)"
  by (simp add: finish_quiz_def determine_level_def Let_def split: sum.splits)

lemma finish_quiz_FinishedD:
  "finish_quiz d data uid sc tot now = (Inr (Finished out), ctx', d') \<Longrightarrow>
     tot \<noteq> 0 \<and> ctx' = None \<and>
     out = \<lparr>o_score = sc, o_total = tot, o_percentage = percentage_of sc tot,
            o_level = determined_level (percentage_of sc tot),
            o_time_taken = now - start_time data\<rparr> \<and>
     d' = save_result d uid (determined_level (percentage_of sc tot)) sc tot (wrong_answers data)
            (now - start_time data)"
  by (auto simp add: finish_quiz_def determine_level_def Let_def split: sum.splits if_splits)

lemma handle_answer_FinishedD:
  "handle_answer d data uid a now = (Inr (Finished out), ctx', d') \<Longrightarrow>
     \<exists>q. py_index (questions data) (current data) = Inr q \<and>
         finish_quiz d (score_answer data q a) uid (score (score_answer data q a))
           (int (length (questions data))) now = (Inr (Finished out), ctx', d')"
  by (auto simp add: handle_answer_def Let_def ask_question_def split: sum.splits if_splits)

lemma save_result_last:
  "last (results (save_result d uid lvl sc tot wrong t)) =
     \<lparr>r_user_id = uid, r_level = lvl, r_score = sc, r_total_questions = tot,
      r_wrong_answers = (if wrong \<noteq> [] then Some (Wrong_questions wrong) else None),
      r_time_taken = t\<rparr>"
  by (simp add: save_result_def)

lemma handle_answer_Finished_level:
  assumes "handle_answer d data uid a now = (Inr (Finished out), ctx', d')"
  shows "o_level out = determined_level (percentage_of (o_score out) (o_total out))"
    and "o_percentage out = percentage_of (o_score out) (o_total out)"
    and "o_total out \<noteq> 0"
    and "o_total out = int (length (questions data))"
    and "r_level (last (results d')) = o_level out"
    and "r_score (last (results d')) = o_score out"
    and "r_total_questions (last (results d')) = o_total out"
    and "ctx' = None"
proof -
  from handle_answer_FinishedD [OF assms] obtain q where
    f: "finish_quiz d (score_answer data q a) uid (score (score_answer data q a))
           (int (length (questions data))) now = (Inr (Finished out), ctx', d')"
    by blast
  note g = finish_quiz_FinishedD [OF f]
  from g show "o_level out = determined_level (percentage_of (o_score out) (o_total out))"
    by simp
  from g show "o_percentage out = percentage_of (o_score out) (o_total out)" by simp
  from g show "o_total out \<noteq> 0" by simp
  from g show "o_total out = int (length (questions data))" by simp
  from g show "r_level (last (results d')) = o_level out" by (simp add: save_result_last)
  from g show "r_score (last (results d')) = o_score out" by (simp add: save_result_last)
  from g show "r_total_questions (last (results d')) = o_total out"
    by (simp add: save_result_last)
  from g show "ctx' = None" by simp
qed

lemma score_answer_web_questions [simp]:
  "wq_questions (score_answer_web qz q a) = wq_questions qz"
  by (simp add: score_answer_web_def)

lemma score_answer_web_current [simp]:
  "wq_current (score_answer_web qz q a) = wq_current qz + 1"
  by (simp add: score_answer_web_def)

lemma finish_web_FinishedD:
  "finish_web d sess uid qz c0 now = (Inr (Finished_web c out), sess', d') \<Longrightarrow>
     wq_questions qz \<noteq> [] \<and> c = c0 \<and> sess' = sess \<and>
     out = \<lparr>o_score = wq_score qz, o_total = int (length (wq_questions qz)),
            o_percentage = percentage_of (wq_score qz) (int (length (wq_questions qz))),
            o_level = determined_level (percentage_of (wq_score qz) (int (length (wq_questions qz)))),
            o_time_taken = now - wq_start_time qz\<rparr> \<and>
     d' = d\<lparr>results := results d @
            [\<lparr>r_user_id = uid + 10000,
              r_level = determined_level (percentage_of (wq_score qz) (int (length (wq_questions qz)))),
              r_score = wq_score qz, r_total_questions = int (length (wq_questions qz)),
              r_wrong_answers = Some (Wrong_ids (wq_wrong_answers qz)),
              r_time_taken = now - wq_start_time qz\<rparr>]\<rparr>"
  by (auto simp add: finish_web_def determine_level_def Let_def split: if_splits)

lemma submit_answer_FinishedD:
  assumes "submit_answer d sess a now = (Inr (Finished_web c out), sess', d')"
  shows "\<exists>uid qz q. ws_user_id sess = Some uid \<and> ws_current_quiz sess = Some qz \<and>
           py_index (wq_questions qz) (wq_current qz) = Inr q \<and>
           finish_web d (sess\<lparr>ws_current_quiz := Some (score_answer_web qz q a)\<rparr>) uid
             (score_answer_web qz q a) (a = Some (q_correct q)) now =
             (Inr (Finished_web c out), sess', d')"
proof -
  from assms obtain uid where u: "ws_user_id sess = Some uid"
    by (cases "ws_user_id sess") (simp_all add: submit_answer_def)
  from assms u obtain qz where z: "ws_current_quiz sess = Some qz"
    by (cases "ws_current_quiz sess") (simp_all add: submit_answer_def)
  from assms u z obtain q where q: "py_index (wq_questions qz) (wq_current qz) = Inr q"
    by (cases "py_index (wq_questions qz) (wq_current qz)") (simp_all add: submit_answer_def)
  from assms u z q have "finish_web d (sess\<lparr>ws_current_quiz := Some (score_answer_web qz q a)\<rparr>) uid
             (score_answer_web qz q a) (a = Some (q_correct q)) now =
             (Inr (Finished_web c out), sess', d')"
    by (simp add: submit_answer_def Let_def split: if_splits sum.splits)
  with u z q show ?thesis by blast
qed

lemma last_answer_bot:
  "handle_answer empty_db (last_answer_session lvl) 7 0 60 =
     (Inr (Finished \<lparr>o_score = 19, o_total = 20, o_percentage = 95, o_level = ''C1'',
                     o_time_taken = 60\<rparr>),
      None,
      empty_db\<lparr>results := [\<lparr>r_user_id = 7, r_level = ''C1'', r_score = 19,
                             r_total_questions = 20,
                             r_wrong_answers = Some (Wrong_questions [mk_question 1 ''B1'' 0]),
                             r_time_taken = 60\<rparr>]\<rparr>)"
  by (simp add: handle_answer_def last_answer_session_def py_index_def score_answer_def
        finish_quiz_def determine_level_def percentage_examples determined_level_examples
        save_result_def mk_question_def empty_db_def)

lemma submit_web_last:
  "submit_answer empty_db (last_answer_web lvl) (Some 0) 60 =
     (Inr (Finished_web True \<lparr>o_score = 19, o_total = 20, o_percentage = 95, o_level = ''C1'',
                     o_time_taken = 60\<rparr>),
      \<lparr>ws_user_id = Some 1,
       ws_current_quiz = Some \<lparr>wq_questions = replicate 20 (mk_question 1 ''B1'' 0),
                              wq_current = 20, wq_score = 19, wq_wrong_answers = [1],
                              wq_start_time = 0, wq_level = lvl\<rparr>\<rparr>,
      empty_db\<lparr>results := [\<lparr>r_user_id = 10001, r_level = ''C1'', r_score = 19,
                             r_total_questions = 20,
                             r_wrong_answers = Some (Wrong_ids [1]),
                             r_time_taken = 60\<rparr>]\<rparr>)"
  by (simp add: submit_answer_def last_answer_web_def py_index_def score_answer_web_def
        finish_web_def determine_level_def percentage_examples determined_level_examples
        mk_question_def empty_db_def)

lemma submit_answer_Finished_level:
  assumes "submit_answer d sess a now = (Inr (Finished_web c out), sess', d')"
  shows "o_level out = determined_level (percentage_of (o_score out) (o_total out))"
    and "o_percentage out = percentage_of (o_score out) (o_total out)"
    and "o_total out \<noteq> 0"
    and "r_level (last (results d')) = o_level out"
    and "r_score (last (results d')) = o_score out"
    and "r_total_questions (last (results d')) = o_total out"
proof -
  from submit_answer_FinishedD [OF assms] obtain uid qz q where
    f: "finish_web d (sess\<lparr>ws_current_quiz := Some (score_answer_web qz q a)\<rparr>) uid
             (score_answer_web qz q a) (a = Some (q_correct q)) now =
             (Inr (Finished_web c out), sess', d')"
    by blast
  note g = finish_web_FinishedD [OF f]
  from g show "o_level out = determined_level (percentage_of (o_score out) (o_total out))"
    by simp
  from g show "o_percentage out = percentage_of (o_score out) (o_total out)" by simp
  from g show "o_total out \<noteq> 0" by simp
  from g show "r_level (last (results d')) = o_level out" by simp
  from g show "r_score (last (results d')) = o_score out" by simp
  from g show "r_total_questions (last (results d')) = o_total out" by simp
qed

text \<open>
  \<^bold>\<open>C1.\<close> The level is determined from the score and the total alone: for a total other
  than zero it is the threshold chain on \<^verbatim>\<open>(score / total) * 100\<close>, read from the top with
  inclusive lower bounds (90 gives C1, 80 gives B2, 70 gives B1, 60 gives A2, anything lower
  A1). Every finished outcome of the bot and of the web application carries this level and
  stores it in the result row. In particular 9, 8, 7, 6 and 5 correct answers out of 10 give
  C1, B2, B1, A2 and A1, the percentages being exactly 90, 80, 70, 60 and 50. The
  percentage is the binary64 value that Python computes; for totals up to \<open>2^40\<close> the
  chain decides exactly as it would on the exact quotient.
\<close>

theorem determined_level_thresholds:
  "(tot \<noteq> 0 \<longrightarrow>
      determine_level sc tot =
        Inr (if 90 \<le> percentage_of sc tot then ''C1''
             else if 80 \<le> percentage_of sc tot then ''B2''
             else if 70 \<le> percentage_of sc tot then ''B1''
             else if 60 \<le> percentage_of sc tot then ''A2''
             else ''A1'')) \<and>
   (0 \<le> sc \<longrightarrow> 0 < tot \<longrightarrow> tot \<le> 2 ^ 40 \<longrightarrow>
      determine_level sc tot =
        Inr (if 9 * tot \<le> 10 * sc then ''C1''
             else if 8 * tot \<le> 10 * sc then ''B2''
             else if 7 * tot \<le> 10 * sc then ''B1''
             else if 6 * tot \<le> 10 * sc then ''A2''
             else ''A1'')) \<and>
   (handle_answer d data uid a now = (Inr (Finished out), ctx', d') \<longrightarrow>
      determine_level (o_score out) (o_total out) = Inr (o_level out) \<and>
      o_percentage out = percentage_of (o_score out) (o_total out) \<and>
      r_level (last (results d')) = o_level out) \<and>
   (submit_answer dw sess aw noww = (Inr (Finished_web c outw), sess', dw') \<longrightarrow>
      determine_level (o_score outw) (o_total outw) = Inr (o_level outw) \<and>
      o_percentage outw = percentage_of (o_score outw) (o_total outw) \<and>
      r_level (last (results dw')) = o_level outw) \<and>
   determine_level 9 10 = Inr ''C1'' \<and> determine_level 8 10 = Inr ''B2'' \<and>
   determine_level 7 10 = Inr ''B1'' \<and> determine_level 6 10 = Inr ''A2'' \<and>
   determine_level 5 10 = Inr ''A1'' \<and>
   percentage_of 9 10 = 90 \<and> percentage_of 8 10 = 80 \<and> percentage_of 7 10 = 70 \<and>
   percentage_of 6 10 = 60 \<and> percentage_of 5 10 = 50"
proof -
  have a: "tot \<noteq> 0 \<longrightarrow>
      determine_level sc tot =
        Inr (if 90 \<le> percentage_of sc tot then ''C1''
             else if 80 \<le> percentage_of sc tot then ''B2''
             else if 70 \<le> percentage_of sc tot then ''B1''
             else if 60 \<le> percentage_of sc tot then ''A2''
             else ''A1'')"
    by (simp add: determine_level_def determined_level_def)
  have x: "0 \<le> sc \<longrightarrow> 0 < tot \<longrightarrow> tot \<le> 2 ^ 40 \<longrightarrow>
      determine_level sc tot =
        Inr (if 9 * tot \<le> 10 * sc then ''C1''
             else if 8 * tot \<le> 10 * sc then ''B2''
             else if 7 * tot \<le> 10 * sc then ''B1''
             else if 6 * tot \<le> 10 * sc then ''A2''
             else ''A1'')"
    using determine_level_exact [of sc tot] by blast
  have b: "handle_answer d data uid a now = (Inr (Finished out), ctx', d') \<longrightarrow>
      determine_level (o_score out) (o_total out) = Inr (o_level out) \<and>
      o_percentage out = percentage_of (o_score out) (o_total out) \<and>
      r_level (last (results d')) = o_level out"
    using handle_answer_Finished_level [of d data uid a now out ctx' d']
    by (simp add: determine_level_def)
  have c: "submit_answer dw sess aw noww = (Inr (Finished_web c outw), sess', dw') \<longrightarrow>
      determine_level (o_score outw) (o_total outw) = Inr (o_level outw) \<and>
      o_percentage outw = percentage_of (o_score outw) (o_total outw) \<and>
      r_level (last (results dw')) = o_level outw"
    using submit_answer_Finished_level [of dw sess aw noww c outw sess' dw']
    by (simp add: determine_level_def)
  have e: "determine_level 9 10 = Inr ''C1'' \<and> determine_level 8 10 = Inr ''B2'' \<and>
   determine_level 7 10 = Inr ''B1'' \<and> determine_level 6 10 = Inr ''A2'' \<and>
   determine_level 5 10 = Inr ''A1''"
    by (simp add: determine_level_def percentage_examples determined_level_examples)
  from a x b c e show ?thesis by (simp only: percentage_examples simp_thms)
qed

theorem determined_level_thresholds_witness:
  "(10::int) \<noteq> 0 \<and> (0::int) \<le> 9 \<and> (0::int) < 10 \<and> (10::int) \<le> 2 ^ 40 \<and>
   determine_level 9 10 = Inr ''C1'' \<and>
   fst (handle_answer empty_db (last_answer_session ''B1'') 7 0 60) =
     Inr (Finished \<lparr>o_score = 19, o_total = 20, o_percentage = 95, o_level = ''C1'',
                    o_time_taken = 60\<rparr>) \<and>
   determine_level 19 20 = Inr ''C1'' \<and>
   r_level (last (results (snd (snd (handle_answer empty_db (last_answer_session ''B1'') 7 0 60)))))
     = ''C1'' \<and>
   fst (submit_answer empty_db (last_answer_web (Some ''B1'')) (Some 0) 60) =
     Inr (Finished_web True \<lparr>o_score = 19, o_total = 20, o_percentage = 95, o_level = ''C1'',
                    o_time_taken = 60\<rparr>) \<and>
   r_level (last (results (snd (snd (submit_answer empty_db (last_answer_web (Some ''B1''))
     (Some 0) 60))))) = ''C1''"
  using determined_level_thresholds [of 10 9 empty_db "last_answer_session ''B1''" 7 0 60
          "\<lparr>o_score = 19, o_total = 20, o_percentage = 95, o_level = ''C1'', o_time_taken = 60\<rparr>"
          None "snd (snd (handle_answer empty_db (last_answer_session ''B1'') 7 0 60))"
          empty_db "last_answer_web (Some ''B1'')" "Some 0" 60 True
          "\<lparr>o_score = 19, o_total = 20, o_percentage = 95, o_level = ''C1'', o_time_taken = 60\<rparr>"
          "fst (snd (submit_answer empty_db (last_answer_web (Some ''B1'')) (Some 0) 60))"
          "snd (snd (submit_answer empty_db (last_answer_web (Some ''B1'')) (Some 0) 60))"]
  by (simp add: last_answer_bot submit_web_last)

text \<open>
  \<^bold>\<open>C7.\<close> Two finished sessions with the same score and the same total have the same
  determined level, in the outcome and in the stored result row, whatever level was
  requested at the start: the session data, the requested level included, are arbitrary
  here. This holds for the bot and for the web application.
\<close>

theorem level_independent_of_filter:
  "(handle_answer d1 data1 u1 a1 t1 = (Inr (Finished o1), c1, e1) \<longrightarrow>
    handle_answer d2 data2 u2 a2 t2 = (Inr (Finished o2), c2, e2) \<longrightarrow>
    o_score o1 = o_score o2 \<longrightarrow> o_total o1 = o_total o2 \<longrightarrow>
      o_level o1 = o_level o2 \<and> r_level (last (results e1)) = r_level (last (results e2))) \<and>
   (submit_answer d3 s3 a3 t3 = (Inr (Finished_web b3 o3), s3', e3) \<longrightarrow>
    submit_answer d4 s4 a4 t4 = (Inr (Finished_web b4 o4), s4', e4) \<longrightarrow>
    o_score o3 = o_score o4 \<longrightarrow> o_total o3 = o_total o4 \<longrightarrow>
      o_level o3 = o_level o4 \<and> r_level (last (results e3)) = r_level (last (results e4)))"
  using handle_answer_Finished_level(1,5) [of d1 data1 u1 a1 t1 o1 c1 e1]
        handle_answer_Finished_level(1,5) [of d2 data2 u2 a2 t2 o2 c2 e2]
        submit_answer_Finished_level(1,4) [of d3 s3 a3 t3 b3 o3 s3' e3]
        submit_answer_Finished_level(1,4) [of d4 s4 a4 t4 b4 o4 s4' e4]
  by simp


lemma last_answer_level: "level (last_answer_session lvl) = lvl"
  by (simp add: last_answer_session_def)

theorem level_independent_of_filter_witness:
  "level (last_answer_session ''B1'') \<noteq> level (last_answer_session ''full'') \<and>
   fst (handle_answer empty_db (last_answer_session ''B1'') 7 0 60) =
     fst (handle_answer empty_db (last_answer_session ''full'') 7 0 60) \<and>
   r_level (last (results (snd (snd (handle_answer empty_db (last_answer_session ''B1'') 7 0 60)))))
     = ''C1'' \<and>
   r_level (last (results (snd (snd (handle_answer empty_db (last_answer_session ''full'') 7 0 60)))))
     = ''C1'' \<and>
   r_level (last (results (snd (snd (submit_answer empty_db (last_answer_web (Some ''B1''))
     (Some 0) 60))))) = ''C1'' \<and>
   r_level (last (results (snd (snd (submit_answer empty_db (last_answer_web None)
     (Some 0) 60))))) = ''C1''"
  using level_independent_of_filter [of
          empty_db "last_answer_session ''B1''" 7 0 60
          "\<lparr>o_score = 19, o_total = 20, o_percentage = 95, o_level = ''C1'', o_time_taken = 60\<rparr>"
          None "snd (snd (handle_answer empty_db (last_answer_session ''B1'') 7 0 60))"
          empty_db "last_answer_session ''full''" 7 0 60
          "\<lparr>o_score = 19, o_total = 20, o_percentage = 95, o_level = ''C1'', o_time_taken = 60\<rparr>"
          None "snd (snd (handle_answer empty_db (last_answer_session ''full'') 7 0 60))"
          empty_db "last_answer_web (Some ''B1'')" "Some 0" 60 True
          "\<lparr>o_score = 19, o_total = 20, o_percentage = 95, o_level = ''C1'', o_time_taken = 60\<rparr>"
          "fst (snd (submit_answer empty_db (last_answer_web (Some ''B1'')) (Some 0) 60))"
          "snd (snd (submit_answer empty_db (last_answer_web (Some ''B1'')) (Some 0) 60))"
          empty_db "last_answer_web None" "Some 0" 60 True
          "\<lparr>o_score = 19, o_total = 20, o_percentage = 95, o_level = ''C1'', o_time_taken = 60\<rparr>"
          "fst (snd (submit_answer empty_db (last_answer_web None) (Some 0) 60))"
          "snd (snd (submit_answer empty_db (last_answer_web None) (Some 0) 60))"]
  by (simp add: last_answer_bot submit_web_last last_answer_level)

subsection \<open>The cursor invariant\<close>

lemma py_index_InrD: "py_index xs i = Inr x \<Longrightarrow> i < int (length xs)"
  by (simp add: py_index_def split: if_splits)

lemma score_answer_inv:
  "quiz_inv data \<Longrightarrow> current data < int (length (questions data)) \<Longrightarrow>
     quiz_inv (score_answer data q a)"
  by (simp add: quiz_inv_def score_answer_def)

lemma finish_quiz_ctx:
  "fst (snd (finish_quiz d data uid sc tot now)) = None \<or>
   fst (snd (finish_quiz d data uid sc tot now)) = Some data"
  by (simp add: finish_quiz_def Let_def split: sum.splits)

lemma handle_answer_ctx:
  "py_index (questions data) (current data) = Inr q \<Longrightarrow>
     fst (snd (handle_answer d data uid a now)) = None \<or>
     fst (snd (handle_answer d data uid a now)) = Some (score_answer data q a)"
  using finish_quiz_ctx [of d "score_answer data q a" uid "score (score_answer data q a)"
          "int (length (questions data))" now]
  by (auto simp add: handle_answer_def Let_def split: sum.splits)

lemma handle_answer_ctx_fail:
  "py_index (questions data) (current data) = Inl e \<Longrightarrow>
     handle_answer d data uid a now = (Inl e, Some data, d)"
  by (simp add: handle_answer_def)

lemma handle_answer_inv:
  assumes "quiz_inv data"
  shows "ctx_inv (fst (snd (handle_answer d data uid a now)))"
proof (cases "py_index (questions data) (current data)")
  case (Inl e)
  with assms show ?thesis by (simp add: handle_answer_ctx_fail ctx_inv_def)
next
  case (Inr q)
  from py_index_InrD [OF Inr] assms have "quiz_inv (score_answer data q a)"
    by (rule score_answer_inv [rotated])
  with handle_answer_ctx [OF Inr, of d uid a now] show ?thesis
    by (auto simp add: ctx_inv_def)
qed

lemma answer_callback_inv:
  "ctx_inv ctx \<Longrightarrow> ctx_inv (fst (snd (answer_callback d ctx uid a now)))"
proof (cases ctx)
  case None
  then show ?thesis by (simp add: answer_callback_def ctx_inv_def)
next
  case (Some data)
  assume "ctx_inv ctx"
  with Some have "quiz_inv data" by (simp add: ctx_inv_def)
  from handle_answer_inv [OF this] Some show ?thesis by (simp add: answer_callback_def)
qed

lemma answer_calls_inv:
  "ctx_inv ctx \<Longrightarrow> ctx_inv (fst (snd (answer_calls d ctx uid cs)))"
proof (induction cs arbitrary: d ctx)
  case Nil
  then show ?case by simp
next
  case (Cons c cs)
  obtain r ctx' d' where step: "answer_callback d ctx uid (fst c) (snd c) = (r, ctx', d')"
    by (cases "answer_callback d ctx uid (fst c) (snd c)")
  from answer_callback_inv [OF Cons.prems, of d uid "fst c" "snd c"] step
  have "ctx_inv ctx'" by simp
  from Cons.IH [OF this, of d'] step show ?case
    by (auto split: prod.splits)
qed

lemma start_quiz_inv:
  "ctx_inv ctx \<Longrightarrow> ctx_inv (snd (start_quiz d ctx uid lvl now))"
  by (simp add: start_quiz_def Let_def ctx_inv_def quiz_inv_def split: list.splits)

lemma handle_answer_cursor:
  "py_index (questions data) (current data) = Inr q \<Longrightarrow>
   fst (snd (handle_answer d data uid a now)) = Some data' \<Longrightarrow>
     current data' = current data + 1 \<and> questions data' = questions data"
  using handle_answer_ctx [of data q d uid a now] by auto

lemma score_answer_web_inv:
  "web_quiz_inv qz \<Longrightarrow> wq_current qz < int (length (wq_questions qz)) \<Longrightarrow>
     web_quiz_inv (score_answer_web qz q a)"
  by (simp add: web_quiz_inv_def score_answer_web_def)

lemma finish_web_sess: "fst (snd (finish_web d sess uid qz c now)) = sess"
  by (simp add: finish_web_def Let_def split: sum.splits)

lemma submit_answer_sess:
  "fst (snd (submit_answer d sess a now)) =
     (case ws_user_id sess of None \<Rightarrow> sess
      | Some uid \<Rightarrow>
        (case ws_current_quiz sess of None \<Rightarrow> sess
         | Some qz \<Rightarrow>
           (case py_index (wq_questions qz) (wq_current qz) of Inl e \<Rightarrow> sess
            | Inr q \<Rightarrow> sess\<lparr>ws_current_quiz := Some (score_answer_web qz q a)\<rparr>)))"
  by (simp add: submit_answer_def Let_def finish_web_sess split: option.splits sum.splits)

lemma submit_answer_inv:
  "web_inv sess \<Longrightarrow> web_inv (fst (snd (submit_answer d sess a now)))"
  by (auto simp add: submit_answer_sess web_inv_def score_answer_web_inv
      split: option.splits sum.splits dest: py_index_InrD)

lemma submit_calls_inv:
  "web_inv sess \<Longrightarrow> web_inv (fst (snd (submit_calls d sess cs)))"
proof (induction cs arbitrary: d sess)
  case Nil
  then show ?case by simp
next
  case (Cons c cs)
  obtain r sess' d' where step: "submit_answer d sess (fst c) (snd c) = (r, sess', d')"
    by (cases "submit_answer d sess (fst c) (snd c)")
  from submit_answer_inv [OF Cons.prems, of d "fst c" "snd c"] step
  have "web_inv sess'" by simp
  from Cons.IH [OF this, of d'] step show ?case
    by (auto split: prod.splits)
qed

lemma start_quiz_web_inv:
  "web_inv sess \<Longrightarrow> web_inv (snd (start_quiz_web d rnd sess lvl now))"
  by (simp add: start_quiz_web_def Let_def web_inv_def web_quiz_inv_def split: sum.splits)

lemma submit_answer_cursor:
  "ws_user_id sess = Some uid \<Longrightarrow> ws_current_quiz sess = Some qz \<Longrightarrow>
   py_index (wq_questions qz) (wq_current qz) = Inr q \<Longrightarrow>
     \<exists>qz'. ws_current_quiz (fst (snd (submit_answer d sess a now))) = Some qz' \<and>
           wq_current qz' = wq_current qz + 1 \<and> wq_questions qz' = wq_questions qz"
  by (simp add: submit_answer_sess)

lemma two_db_hints: "get_user_hints two_db u = 0"
  by (simp add: get_user_hints_def two_db_def empty_db_def)

lemma two_db_results: "results two_db = []"
  by (simp add: two_db_def empty_db_def)

lemma joined_two:
  "joined two_db = [(mk_row 1 1 0, hd two_levels), (mk_row 2 1 1, hd two_levels)]"
  by (simp add: joined_def two_db_def empty_db_def two_levels_def mk_row_def)

lemma get_questions_two:
  "get_questions two_db (Some ''A1'') = [mk_question 1 ''A1'' 0, mk_question 2 ''A1'' 1]"
  by (simp add: get_questions_def joined_two truthy_def two_levels_def mk_row_def
        select_question_def mk_question_def)

lemma fetch_two:
  "fetch_quiz_data two_db (\<lambda>i. int i) (Some ''A1'') =
     [mk_question 1 ''A1'' 0, mk_question 2 ''A1'' 1]"
  by (simp add: fetch_quiz_data_def joined_two truthy_def two_levels_def mk_row_def
        select_question_def mk_question_def order_by_random_def upt_rec)

lemma start_two:
  "start_quiz two_db None 7 ''A1'' 100 =
     (Ask_question (mk_question 1 ''A1'' 0) 1 2 3 False, Some two_quiz)"
  by (simp add: start_quiz_def get_questions_two ask_question_def two_db_hints two_quiz_def)

lemma start_web_two:
  "start_quiz_web two_db (\<lambda>i. int i) logged_in (Some ''A1'') 100 =
     (Inr (Started 2 (mk_question 1 ''A1'' 0)), logged_in\<lparr>ws_current_quiz := Some two_web_quiz\<rparr>)"
  by (simp add: start_quiz_web_def fetch_two logged_in_def py_index_def two_web_quiz_def)

lemma two_quiz_first: "py_index (questions two_quiz) (current two_quiz) = Inr (mk_question 1 ''A1'' 0)"
  by (simp add: two_quiz_def py_index_def)

lemma two_web_quiz_first:
  "py_index (wq_questions two_web_quiz) (wq_current two_web_quiz) = Inr (mk_question 1 ''A1'' 0)"
  by (simp add: two_web_quiz_def py_index_def)

lemma two_quiz_answer:
  "handle_answer two_db two_quiz 7 0 110 =
     (Inr (Ask_question (mk_question 2 ''A1'' 1) 2 2 3 False),
      Some (two_quiz\<lparr>current := 1, score := 1\<rparr>), two_db)"
  by (simp add: handle_answer_def py_index_def score_answer_def two_quiz_def ask_question_def
        two_db_hints mk_question_def)

lemma two_web_answer:
  "submit_answer two_db (logged_in\<lparr>ws_current_quiz := Some two_web_quiz\<rparr>) (Some 0) 110 =
     (Inr (Next_question True (mk_question 2 ''A1'' 1) 2 2 1),
      logged_in\<lparr>ws_current_quiz := Some (two_web_quiz\<lparr>wq_current := 1, wq_score := 1\<rparr>)\<rparr>,
      two_db)"
  by (simp add: submit_answer_def py_index_def score_answer_web_def two_web_quiz_def
        logged_in_def mk_question_def)

text \<open>
  \<^bold>\<open>C4.\<close> \<open>0 \<le> score \<le> cursor \<le> length questions\<close> holds in every session that a start
  creates and after every sequence of answer calls on a session in which it holds, in the
  bot and in the web application. Every answer that is processed (the question at the
  cursor exists) moves the cursor by exactly one, whether the answer is right or wrong.
\<close>

theorem cursor_invariant:
  "(ctx_inv ctx \<longrightarrow>
      ctx_inv (snd (start_quiz d ctx uid lvl now)) \<and>
      ctx_inv (fst (snd (answer_calls d ctx uid cs)))) \<and>
   (py_index (questions data) (current data) = Inr q \<longrightarrow>
    fst (snd (handle_answer d data uid a now)) = Some data' \<longrightarrow>
      current data' = current data + 1) \<and>
   current (score_answer data q a) = current data + 1 \<and>
   (web_inv sess \<longrightarrow>
      web_inv (snd (start_quiz_web d rnd sess wlvl now)) \<and>
      web_inv (fst (snd (submit_calls d sess ws)))) \<and>
   (ws_user_id sess = Some wuid \<longrightarrow> ws_current_quiz sess = Some qz \<longrightarrow>
    py_index (wq_questions qz) (wq_current qz) = Inr wq \<longrightarrow>
      ws_current_quiz (fst (snd (submit_answer d sess wa now))) =
        Some (score_answer_web qz wq wa) \<and>
      wq_current (score_answer_web qz wq wa) = wq_current qz + 1)"
proof -
  have a: "py_index (questions data) (current data) = Inr q \<longrightarrow>
    fst (snd (handle_answer d data uid a now)) = Some data' \<longrightarrow>
      current data' = current data + 1"
    using handle_answer_cursor [of data q d uid a now data'] by simp
  show ?thesis
    using a
    by (simp add: start_quiz_inv answer_calls_inv start_quiz_web_inv submit_calls_inv
          submit_answer_sess)
qed

lemma two_quiz_inv: "ctx_inv (Some two_quiz)"
  by (simp add: ctx_inv_def quiz_inv_def two_quiz_def)

lemma two_web_inv: "web_inv (logged_in\<lparr>ws_current_quiz := Some two_web_quiz\<rparr>)"
  by (simp add: web_inv_def web_quiz_inv_def two_web_quiz_def)

lemma two_quiz_answer_ctx:
  "fst (snd (handle_answer two_db two_quiz 7 0 110)) = Some (two_quiz\<lparr>current := 1, score := 1\<rparr>)"
  by (simp add: two_quiz_answer)

lemma two_web_user: "ws_user_id (logged_in\<lparr>ws_current_quiz := Some two_web_quiz\<rparr>) = Some 1"
  by (simp add: logged_in_def)

lemma two_web_current:
  "ws_current_quiz (logged_in\<lparr>ws_current_quiz := Some two_web_quiz\<rparr>) = Some two_web_quiz"
  by simp

theorem cursor_invariant_witness:
  "ctx_inv (Some two_quiz) \<and>
   py_index (questions two_quiz) (current two_quiz) = Inr (mk_question 1 ''A1'' 0) \<and>
   fst (snd (handle_answer two_db two_quiz 7 0 110)) =
     Some (two_quiz\<lparr>current := 1, score := 1\<rparr>) \<and>
   web_inv (logged_in\<lparr>ws_current_quiz := Some two_web_quiz\<rparr>) \<and>
   ws_user_id (logged_in\<lparr>ws_current_quiz := Some two_web_quiz\<rparr>) = Some 1 \<and>
   ws_current_quiz (logged_in\<lparr>ws_current_quiz := Some two_web_quiz\<rparr>) = Some two_web_quiz \<and>
   py_index (wq_questions two_web_quiz) (wq_current two_web_quiz) =
     Inr (mk_question 1 ''A1'' 0) \<and>
   ctx_inv (snd (start_quiz two_db (Some two_quiz) 7 ''A1'' 110)) \<and>
   ctx_inv (fst (snd (answer_calls two_db (Some two_quiz) 7 [(0, 110)]))) \<and>
   current (two_quiz\<lparr>current := 1, score := 1\<rparr>) = current two_quiz + 1 \<and>
   web_inv (snd (start_quiz_web two_db (\<lambda>i. int i)
     (logged_in\<lparr>ws_current_quiz := Some two_web_quiz\<rparr>) (Some ''A1'') 110)) \<and>
   web_inv (fst (snd (submit_calls two_db (logged_in\<lparr>ws_current_quiz := Some two_web_quiz\<rparr>)
     [(Some 0, 110)]))) \<and>
   wq_current (score_answer_web two_web_quiz (mk_question 1 ''A1'' 0) (Some 0)) =
     wq_current two_web_quiz + 1"
  using cursor_invariant [where ctx = "Some two_quiz" and d = two_db and uid = 7
          and lvl = "''A1''" and now = 110 and cs = "[(0, 110)]" and data = two_quiz
          and q = "mk_question 1 ''A1'' 0" and a = 0
          and data' = "two_quiz\<lparr>current := 1, score := 1\<rparr>"
          and sess = "logged_in\<lparr>ws_current_quiz := Some two_web_quiz\<rparr>"
          and rnd = "\<lambda>i. int i" and wlvl = "Some ''A1''" and ws = "[(Some 0, 110)]"
          and wuid = 1 and qz = two_web_quiz and wq = "mk_question 1 ''A1'' 0"
          and wa = "Some 0"]
        two_quiz_inv two_quiz_first two_quiz_answer_ctx two_web_inv two_web_user
        two_web_current two_web_quiz_first
  by blast

subsection \<open>Counting answers\<close>

lemma score_answer_counted: "quiz_counted data \<Longrightarrow> quiz_counted (score_answer data q a)"
  by (simp add: quiz_counted_def score_answer_def)

lemma handle_answer_counted:
  assumes "quiz_counted data"
  shows "ctx_counted (fst (snd (handle_answer d data uid a now)))"
proof (cases "py_index (questions data) (current data)")
  case (Inl e)
  with assms show ?thesis by (simp add: handle_answer_ctx_fail ctx_counted_def)
next
  case (Inr q)
  from assms have "quiz_counted (score_answer data q a)" by (rule score_answer_counted)
  with handle_answer_ctx [OF Inr, of d uid a now] show ?thesis
    by (auto simp add: ctx_counted_def)
qed

lemma answer_callback_counted:
  assumes "ctx_counted ctx"
  shows "ctx_counted (fst (snd (answer_callback d ctx uid a now)))"
proof (cases ctx)
  case None
  then show ?thesis by (simp add: answer_callback_def ctx_counted_def)
next
  case (Some data)
  with assms have "quiz_counted data" by (simp add: ctx_counted_def)
  from handle_answer_counted [OF this] Some show ?thesis by (simp add: answer_callback_def)
qed

lemma answer_calls_counted:
  "ctx_counted ctx \<Longrightarrow> ctx_counted (fst (snd (answer_calls d ctx uid cs)))"
proof (induction cs arbitrary: d ctx)
  case Nil
  then show ?case by simp
next
  case (Cons c cs)
  obtain r ctx' d' where step: "answer_callback d ctx uid (fst c) (snd c) = (r, ctx', d')"
    by (cases "answer_callback d ctx uid (fst c) (snd c)")
  from answer_callback_counted [OF Cons.prems, of d uid "fst c" "snd c"] step
  have "ctx_counted ctx'" by simp
  from Cons.IH [OF this, of d'] step show ?case
    by (auto split: prod.splits)
qed

lemma start_quiz_counted:
  "ctx_counted ctx \<Longrightarrow> ctx_counted (snd (start_quiz d ctx uid lvl now))"
  by (simp add: start_quiz_def Let_def ctx_counted_def quiz_counted_def split: list.splits)

lemma score_answer_web_counted:
  "web_quiz_counted qz \<Longrightarrow> web_quiz_counted (score_answer_web qz q a)"
  by (simp add: web_quiz_counted_def score_answer_web_def)

lemma submit_answer_counted:
  "web_counted sess \<Longrightarrow> web_counted (fst (snd (submit_answer d sess a now)))"
  by (auto simp add: submit_answer_sess web_counted_def score_answer_web_counted
      split: option.splits sum.splits)

lemma submit_calls_counted:
  "web_counted sess \<Longrightarrow> web_counted (fst (snd (submit_calls d sess cs)))"
proof (induction cs arbitrary: d sess)
  case Nil
  then show ?case by simp
next
  case (Cons c cs)
  obtain r sess' d' where step: "submit_answer d sess (fst c) (snd c) = (r, sess', d')"
    by (cases "submit_answer d sess (fst c) (snd c)")
  from submit_answer_counted [OF Cons.prems, of d "fst c" "snd c"] step
  have "web_counted sess'" by simp
  from Cons.IH [OF this, of d'] step show ?case
    by (auto split: prod.splits)
qed

lemma start_quiz_web_counted:
  "web_counted sess \<Longrightarrow> web_counted (snd (start_quiz_web d rnd sess lvl now))"
  by (simp add: start_quiz_web_def Let_def web_counted_def web_quiz_counted_def
      split: sum.splits)

text \<open>What an answer call leaves in the database.\<close>

lemma py_index_nonempty: "py_index xs i = Inr x \<Longrightarrow> xs \<noteq> []"
  by (auto simp add: py_index_def split: if_splits)

lemma handle_answer_db:
  assumes "py_index (questions data) (current data) = Inr q"
  shows "snd (snd (handle_answer d data uid a now)) =
     (if lives (score_answer data q a) \<le> 0 \<or>
         int (length (questions data)) \<le> current data + 1
      then save_result d uid
             (determined_level (percentage_of (score (score_answer data q a))
                (int (length (questions data)))))
             (score (score_answer data q a)) (int (length (questions data)))
             (wrong_answers (score_answer data q a)) (now - start_time data)
      else d)"
proof -
  from py_index_nonempty [OF assms] have n: "int (length (questions data)) \<noteq> 0" by simp
  have st: "start_time (score_answer data q a) = start_time data"
    by (simp add: score_answer_def)
  show ?thesis
    using assms finish_quiz_db [OF n, of d "score_answer data q a" uid
        "score (score_answer data q a)" now]
    by (simp add: handle_answer_def Let_def st split: sum.splits)
qed

lemma wrong_entries_saved:
  "wrong_entries (last (results (save_result d uid lvl sc tot wrong t))) = length wrong"
  by (simp add: save_result_last wrong_entries_def)

lemma save_result_results:
  "results (save_result d uid lvl sc tot wrong t) = results d @ [row] \<Longrightarrow>
     row = last (results (save_result d uid lvl sc tot wrong t))"
  by (simp add: save_result_def)

lemma handle_answer_row:
  assumes c: "quiz_counted data"
    and q: "py_index (questions data) (current data) = Inr q"
    and r: "results (snd (snd (handle_answer d data uid a now))) = results d @ [row]"
  shows "int (wrong_entries row) = current data + 1 - r_score row"
    and "r_total_questions row = int (length (questions data))"
    and "0 < lives (score_answer data q a) \<Longrightarrow>
           int (wrong_entries row) = r_total_questions row - r_score row"
proof -
  let ?data = "score_answer data q a"
  let ?d = "save_result d uid
             (determined_level (percentage_of (score ?data) (int (length (questions data)))))
             (score ?data) (int (length (questions data))) (wrong_answers ?data)
             (now - start_time data)"
  have fin: "lives ?data \<le> 0 \<or> int (length (questions data)) \<le> current data + 1"
    using r handle_answer_db [OF q, of d uid a now] by (auto split: if_splits)
  with r handle_answer_db [OF q, of d uid a now] have "results ?d = results d @ [row]"
    by simp
  then have row: "row = last (results ?d)" by (rule save_result_results)
  from c have cnt: "score ?data + int (length (wrong_answers ?data)) = current data + 1"
    using score_answer_counted [OF c, of q a] by (simp add: quiz_counted_def)
  have w: "wrong_entries row = length (wrong_answers ?data)"
    unfolding row by (rule wrong_entries_saved)
  have s: "r_score row = score ?data"
    unfolding row by (simp add: save_result_last)
  have t: "r_total_questions row = int (length (questions data))"
    unfolding row by (simp add: save_result_last)
  from cnt w s show "int (wrong_entries row) = current data + 1 - r_score row"
    by simp
  from t show "r_total_questions row = int (length (questions data))" .
  assume "0 < lives ?data"
  with fin py_index_InrD [OF q] have "current data + 1 = int (length (questions data))"
    by simp
  with cnt w s t show "int (wrong_entries row) = r_total_questions row - r_score row"
    by simp
qed

lemma submit_answer_db:
  assumes "ws_user_id sess = Some uid" "ws_current_quiz sess = Some qz"
    and "py_index (wq_questions qz) (wq_current qz) = Inr q"
  shows "snd (snd (submit_answer d sess a now)) =
     (if int (length (wq_questions qz)) \<le> wq_current qz + 1
      then d\<lparr>results := results d @
             [\<lparr>r_user_id = uid + 10000,
               r_level = determined_level (percentage_of (wq_score (score_answer_web qz q a))
                           (int (length (wq_questions qz)))),
               r_score = wq_score (score_answer_web qz q a),
               r_total_questions = int (length (wq_questions qz)),
               r_wrong_answers = Some (Wrong_ids (wq_wrong_answers (score_answer_web qz q a))),
               r_time_taken = now - wq_start_time qz\<rparr>]\<rparr>
      else d)"
proof -
  from py_index_nonempty [OF assms(3)] have n: "wq_questions qz \<noteq> []" .
  have st: "wq_start_time (score_answer_web qz q a) = wq_start_time qz"
    by (simp add: score_answer_web_def)
  show ?thesis
    using assms n
    by (simp add: submit_answer_def Let_def finish_web_def determine_level_def st
        split: sum.splits)
qed

lemma submit_answer_row:
  assumes c: "web_quiz_counted qz"
    and u: "ws_user_id sess = Some uid" and z: "ws_current_quiz sess = Some qz"
    and r: "results (snd (snd (submit_answer d sess a now))) = results d @ [row]"
  shows "int (wrong_entries row) = r_total_questions row - r_score row"
proof (cases "py_index (wq_questions qz) (wq_current qz)")
  case (Inl e)
  with u z have "snd (snd (submit_answer d sess a now)) = d"
    by (simp add: submit_answer_def)
  with r show ?thesis by simp
next
  case (Inr q)
  let ?qz = "score_answer_web qz q a"
  from r submit_answer_db [OF u z Inr, of d a now]
  have fin: "int (length (wq_questions qz)) \<le> wq_current qz + 1"
    by (auto split: if_splits)
  with py_index_InrD [OF Inr] have len: "wq_current qz + 1 = int (length (wq_questions qz))"
    by simp
  from c have cnt: "wq_score ?qz + int (length (wq_wrong_answers ?qz)) = wq_current qz + 1"
    using score_answer_web_counted [OF c, of q a] by (simp add: web_quiz_counted_def)
  from r fin submit_answer_db [OF u z Inr, of d a now]
  have "row = \<lparr>r_user_id = uid + 10000,
               r_level = determined_level (percentage_of (wq_score ?qz)
                           (int (length (wq_questions qz)))),
               r_score = wq_score ?qz,
               r_total_questions = int (length (wq_questions qz)),
               r_wrong_answers = Some (Wrong_ids (wq_wrong_answers ?qz)),
               r_time_taken = now - wq_start_time qz\<rparr>"
    by simp
  with cnt len show ?thesis by (simp add: wrong_entries_def)
qed

subsection \<open>Early end of a bot session\<close>

lemma five_db_hints: "get_user_hints five_db u = 0"
  by (simp add: get_user_hints_def five_db_def empty_db_def)

lemma five_db_results: "results five_db = []"
  by (simp add: five_db_def empty_db_def)

lemma joined_five:
  "joined five_db = map (\<lambda>r. (r, hd two_levels))
     [mk_row 1 1 0, mk_row 2 1 0, mk_row 3 1 0, mk_row 4 1 0, mk_row 5 1 0]"
  by (simp add: joined_def five_db_def empty_db_def two_levels_def mk_row_def)

lemma get_questions_five:
  "get_questions five_db (Some ''A1'') =
     [mk_question 1 ''A1'' 0, mk_question 2 ''A1'' 0, mk_question 3 ''A1'' 0,
      mk_question 4 ''A1'' 0, mk_question 5 ''A1'' 0]"
  by (simp add: get_questions_def joined_five truthy_def two_levels_def mk_row_def
        select_question_def mk_question_def)

lemma start_five:
  "start_quiz five_db None 7 ''A1'' 0 =
     (Ask_question (mk_question 1 ''A1'' 0) 1 5 3 False, Some five_quiz)"
  by (simp add: start_quiz_def get_questions_five ask_question_def five_db_hints
        five_quiz_def)

lemma three_wrong_replies:
  "three_wrong_run =
     ([Inr (Ask_question (mk_question 2 ''A1'' 0) 2 5 2 False),
       Inr (Ask_question (mk_question 3 ''A1'' 0) 3 5 1 False),
       Inr (Finished \<lparr>o_score = 0, o_total = 5, o_percentage = 0, o_level = ''A1'',
                      o_time_taken = 30\<rparr>)],
      None, five_db\<lparr>results := [three_wrong_row]\<rparr>)"
  by (simp add: three_wrong_run_def three_wrong_calls_def start_five answer_callback_def
        handle_answer_def five_quiz_def py_index_def score_answer_def finish_quiz_def
        determine_level_def percentage_zero determined_level_examples save_result_def
        ask_question_def five_db_hints five_db_results mk_question_def three_wrong_row_def)


lemma handle_answer_results_early:
  assumes q: "py_index (questions data) (current data) = Inr q"
    and l: "lives (score_answer data q a) \<le> 0"
  shows "results (snd (snd (handle_answer d data uid a now))) =
           results d @ [last (results (snd (snd (handle_answer d data uid a now))))]"
    and "r_total_questions (last (results (snd (snd (handle_answer d data uid a now))))) =
           int (length (questions data))"
    and "r_score (last (results (snd (snd (handle_answer d data uid a now))))) =
           score (score_answer data q a)"
    and "r_level (last (results (snd (snd (handle_answer d data uid a now))))) =
           determined_level (percentage_of (score (score_answer data q a))
             (int (length (questions data))))"
  using handle_answer_db [OF q, of d uid a now] l
  by (simp_all add: save_result_last) (simp add: save_result_def)

lemma three_wrong_general:
  assumes f: "current data = 0" "score data = 0" "lives data = 3" "wrong_answers data = []"
      "questions data = q0 # q1 # q2 # rest"
    and w: "a0 \<noteq> q_correct q0" "a1 \<noteq> q_correct q1" "a2 \<noteq> q_correct q2"
  shows "answer_calls d (Some data) uid [(a0, t0), (a1, t1)] =
           ([Inr (ask_question d (data\<lparr>current := 1, lives := 2, wrong_answers := [q0]\<rparr>) q1),
             Inr (ask_question d (data\<lparr>current := 2, lives := 1, wrong_answers := [q0, q1]\<rparr>)
                    q2)],
            Some (data\<lparr>current := 2, lives := 1, wrong_answers := [q0, q1]\<rparr>), d)"
    and "results (snd (snd (answer_calls d (Some data) uid [(a0, t0), (a1, t1), (a2, t2)]))) =
           results d @
             [\<lparr>r_user_id = uid, r_level = ''A1'', r_score = 0,
               r_total_questions = int (length (questions data)),
               r_wrong_answers = Some (Wrong_questions [q0, q1, q2]),
               r_time_taken = t2 - start_time data\<rparr>]"
proof -
  let ?d1 = "data\<lparr>current := 1, lives := 2, wrong_answers := [q0]\<rparr>"
  let ?d2 = "data\<lparr>current := 2, lives := 1, wrong_answers := [q0, q1]\<rparr>"
  have s1: "handle_answer d data uid a0 t0 = (Inr (ask_question d ?d1 q1), Some ?d1, d)"
    using f w by (simp add: handle_answer_def py_index_def score_answer_def Let_def)
  have s2: "handle_answer d ?d1 uid a1 t1 = (Inr (ask_question d ?d2 q2), Some ?d2, d)"
    using f w by (simp add: handle_answer_def py_index_def score_answer_def Let_def)
  from s1 s2 show two: "answer_calls d (Some data) uid [(a0, t0), (a1, t1)] =
           ([Inr (ask_question d ?d1 q1), Inr (ask_question d ?d2 q2)], Some ?d2, d)"
    by (simp add: answer_callback_def)
  have q: "py_index (questions ?d2) (current ?d2) = Inr q2"
    using f by (simp add: py_index_def)
  have s3: "snd (snd (handle_answer d ?d2 uid a2 t2)) =
      save_result d uid ''A1'' 0 (int (length (questions data))) [q0, q1, q2]
        (t2 - start_time data)"
    using f w handle_answer_db [OF q, of d uid a2 t2]
    by (simp add: score_answer_def percentage_zero determined_level_examples)
  from s1 s2 s3 show "results (snd (snd (answer_calls d (Some data) uid
      [(a0, t0), (a1, t1), (a2, t2)]))) =
           results d @
             [\<lparr>r_user_id = uid, r_level = ''A1'', r_score = 0,
               r_total_questions = int (length (questions data)),
               r_wrong_answers = Some (Wrong_questions [q0, q1, q2]),
               r_time_taken = t2 - start_time data\<rparr>]"
    by (auto simp add: answer_callback_def save_result_def split: prod.splits)
qed


lemma five_quiz_fresh:
  "current five_quiz = 0" "score five_quiz = 0" "lives five_quiz = 3"
  "wrong_answers five_quiz = []"
  "questions five_quiz = mk_question 1 ''A1'' 0 # mk_question 2 ''A1'' 0 #
     mk_question 3 ''A1'' 0 # [mk_question 4 ''A1'' 0, mk_question 5 ''A1'' 0]"
  by (simp_all add: five_quiz_def)

lemma five_quiz_wrong:
  "1 \<noteq> q_correct (mk_question 1 ''A1'' 0)" "1 \<noteq> q_correct (mk_question 2 ''A1'' 0)"
  "1 \<noteq> q_correct (mk_question 3 ''A1'' 0)"
  by (simp_all add: mk_question_def)

lemma five_quiz_third:
  "py_index (questions five_quiz_two_wrong) (current five_quiz_two_wrong) =
     Inr (mk_question 3 ''A1'' 0)"
  by (simp add: five_quiz_two_wrong_def five_quiz_def py_index_def)

lemma five_quiz_no_lives:
  "lives (score_answer five_quiz_two_wrong (mk_question 3 ''A1'' 0) 1) \<le> 0"
  by (simp add: five_quiz_two_wrong_def five_quiz_def score_answer_def mk_question_def)

lemma five_quiz_third_answer:
  "handle_answer five_db five_quiz_two_wrong 7 1 30 =
     (Inr (Finished \<lparr>o_score = 0, o_total = 5, o_percentage = 0, o_level = ''A1'',
                     o_time_taken = 30\<rparr>),
      None, five_db\<lparr>results := [three_wrong_row]\<rparr>)"
  by (simp add: handle_answer_def five_quiz_two_wrong_def five_quiz_def py_index_def
        score_answer_def finish_quiz_def determine_level_def percentage_zero
        determined_level_examples save_result_def five_db_results mk_question_def
        three_wrong_row_def)

text \<open>
  \<^bold>\<open>C2\<close> (as amended). In the bot, an answer that leaves no lives finishes the session
  with the total equal to the size of the session's question pool, whatever the number of
  answers submitted: that total is stored in the result row, it is the total of the
  outcome and the denominator of its percentage. With three lives and three wrong answers
  in a row on a pool of at least three questions, the first two answers are followed by the
  next question and the third one stores the result, with the score 0 and the pool size as
  the total.
\<close>

theorem early_end_total:
  "(py_index (questions data) (current data) = Inr q \<longrightarrow>
    lives (score_answer data q a) \<le> 0 \<longrightarrow>
      results (snd (snd (handle_answer d data uid a now))) =
        results d @ [last (results (snd (snd (handle_answer d data uid a now))))] \<and>
      r_total_questions (last (results (snd (snd (handle_answer d data uid a now))))) =
        int (length (questions data)) \<and>
      r_level (last (results (snd (snd (handle_answer d data uid a now))))) =
        determined_level (percentage_of (score (score_answer data q a))
          (int (length (questions data))))) \<and>
   (handle_answer d data uid a now = (Inr (Finished out), ctx', d') \<longrightarrow>
      o_total out = int (length (questions data)) \<and>
      o_percentage out = percentage_of (o_score out) (int (length (questions data)))) \<and>
   (current fresh = 0 \<longrightarrow> score fresh = 0 \<longrightarrow> lives fresh = 3 \<longrightarrow>
    wrong_answers fresh = [] \<longrightarrow> questions fresh = q0 # q1 # q2 # rest \<longrightarrow>
    a0 \<noteq> q_correct q0 \<longrightarrow> a1 \<noteq> q_correct q1 \<longrightarrow> a2 \<noteq> q_correct q2 \<longrightarrow>
      answer_calls d (Some fresh) uid [(a0, t0), (a1, t1)] =
        ([Inr (ask_question d (fresh\<lparr>current := 1, lives := 2, wrong_answers := [q0]\<rparr>) q1),
          Inr (ask_question d (fresh\<lparr>current := 2, lives := 1, wrong_answers := [q0, q1]\<rparr>)
                 q2)],
         Some (fresh\<lparr>current := 2, lives := 1, wrong_answers := [q0, q1]\<rparr>), d) \<and>
      results (snd (snd (answer_calls d (Some fresh) uid [(a0, t0), (a1, t1), (a2, t2)]))) =
        results d @
          [\<lparr>r_user_id = uid, r_level = ''A1'', r_score = 0,
            r_total_questions = int (length (questions fresh)),
            r_wrong_answers = Some (Wrong_questions [q0, q1, q2]),
            r_time_taken = t2 - start_time fresh\<rparr>])"
proof -
  have a: "py_index (questions data) (current data) = Inr q \<longrightarrow>
    lives (score_answer data q a) \<le> 0 \<longrightarrow>
      results (snd (snd (handle_answer d data uid a now))) =
        results d @ [last (results (snd (snd (handle_answer d data uid a now))))] \<and>
      r_total_questions (last (results (snd (snd (handle_answer d data uid a now))))) =
        int (length (questions data)) \<and>
      r_level (last (results (snd (snd (handle_answer d data uid a now))))) =
        determined_level (percentage_of (score (score_answer data q a))
          (int (length (questions data))))"
    using handle_answer_results_early [of data q a d uid now] by blast
  have b: "handle_answer d data uid a now = (Inr (Finished out), ctx', d') \<longrightarrow>
      o_total out = int (length (questions data)) \<and>
      o_percentage out = percentage_of (o_score out) (int (length (questions data)))"
    using handle_answer_Finished_level(2,4) [of d data uid a now out ctx' d'] by auto
  have c: "current fresh = 0 \<longrightarrow> score fresh = 0 \<longrightarrow> lives fresh = 3 \<longrightarrow>
    wrong_answers fresh = [] \<longrightarrow> questions fresh = q0 # q1 # q2 # rest \<longrightarrow>
    a0 \<noteq> q_correct q0 \<longrightarrow> a1 \<noteq> q_correct q1 \<longrightarrow> a2 \<noteq> q_correct q2 \<longrightarrow>
      answer_calls d (Some fresh) uid [(a0, t0), (a1, t1)] =
        ([Inr (ask_question d (fresh\<lparr>current := 1, lives := 2, wrong_answers := [q0]\<rparr>) q1),
          Inr (ask_question d (fresh\<lparr>current := 2, lives := 1, wrong_answers := [q0, q1]\<rparr>)
                 q2)],
         Some (fresh\<lparr>current := 2, lives := 1, wrong_answers := [q0, q1]\<rparr>), d) \<and>
      results (snd (snd (answer_calls d (Some fresh) uid [(a0, t0), (a1, t1), (a2, t2)]))) =
        results d @
          [\<lparr>r_user_id = uid, r_level = ''A1'', r_score = 0,
            r_total_questions = int (length (questions fresh)),
            r_wrong_answers = Some (Wrong_questions [q0, q1, q2]),
            r_time_taken = t2 - start_time fresh\<rparr>]"
    using three_wrong_general(1) [of fresh q0 q1 q2 rest a0 a1 a2 d uid t0 t1]
      three_wrong_general(2) [of fresh q0 q1 q2 rest a0 a1 a2 d uid t0 t1 t2]
    by blast
  from a b c show ?thesis by blast
qed

theorem early_end_total_witness:
  "py_index (questions five_quiz_two_wrong) (current five_quiz_two_wrong) =
     Inr (mk_question 3 ''A1'' 0) \<and>
   lives (score_answer five_quiz_two_wrong (mk_question 3 ''A1'' 0) 1) \<le> 0 \<and>
   handle_answer five_db five_quiz_two_wrong 7 1 30 =
     (Inr (Finished \<lparr>o_score = 0, o_total = 5, o_percentage = 0, o_level = ''A1'',
                     o_time_taken = 30\<rparr>),
      None, five_db\<lparr>results := [three_wrong_row]\<rparr>) \<and>
   current five_quiz = 0 \<and> score five_quiz = 0 \<and> lives five_quiz = 3 \<and>
   wrong_answers five_quiz = [] \<and>
   questions five_quiz = mk_question 1 ''A1'' 0 # mk_question 2 ''A1'' 0 #
     mk_question 3 ''A1'' 0 # [mk_question 4 ''A1'' 0, mk_question 5 ''A1'' 0] \<and>
   r_total_questions (last (results (snd (snd (handle_answer five_db five_quiz_two_wrong 7 1 30)))))
     = int (length (questions five_quiz_two_wrong)) \<and>
   int (length (questions five_quiz_two_wrong)) = 5 \<and>
   fst (snd (answer_calls five_db (Some five_quiz) 7 [(1, 10), (1, 20)])) =
     Some (five_quiz\<lparr>current := 2, lives := 1,
             wrong_answers := [mk_question 1 ''A1'' 0, mk_question 2 ''A1'' 0]\<rparr>) \<and>
   results (snd (snd (answer_calls five_db (Some five_quiz) 7 [(1, 10), (1, 20), (1, 30)]))) =
     results five_db @
       [\<lparr>r_user_id = 7, r_level = ''A1'', r_score = 0,
         r_total_questions = int (length (questions five_quiz)),
         r_wrong_answers = Some (Wrong_questions [mk_question 1 ''A1'' 0,
           mk_question 2 ''A1'' 0, mk_question 3 ''A1'' 0]),
         r_time_taken = 30 - start_time five_quiz\<rparr>]"
proof -
  have len: "int (length (questions five_quiz_two_wrong)) = 5"
    by (simp add: five_quiz_two_wrong_def five_quiz_def)
  note t = early_end_total [where data = five_quiz_two_wrong and q = "mk_question 3 ''A1'' 0"
          and a = 1 and d = five_db and uid = 7 and now = 30
          and out = "\<lparr>o_score = 0, o_total = 5, o_percentage = 0, o_level = ''A1'',
                     o_time_taken = 30\<rparr>"
          and ctx' = None and d' = "five_db\<lparr>results := [three_wrong_row]\<rparr>"
          and fresh = five_quiz and ?q0.0 = "mk_question 1 ''A1'' 0"
          and ?q1.0 = "mk_question 2 ''A1'' 0" and ?q2.0 = "mk_question 3 ''A1'' 0"
          and rest = "[mk_question 4 ''A1'' 0, mk_question 5 ''A1'' 0]"
          and ?a0.0 = 1 and ?a1.0 = 1 and ?a2.0 = 1 and ?t0.0 = 10 and ?t1.0 = 20
          and ?t2.0 = 30]
  from t five_quiz_third five_quiz_no_lives five_quiz_third_answer five_quiz_fresh
    five_quiz_wrong len
  show ?thesis by simp
qed

theorem early_end_total_counterexample:
  "last (fst three_wrong_run) =
     Inr (Finished \<lparr>o_score = 0, o_total = 5, o_percentage = 0, o_level = ''A1'',
                    o_time_taken = 30\<rparr>) \<and>
   length (fst three_wrong_run) = 3 \<and>
   fst (snd three_wrong_run) = None \<and>
   r_total_questions (last (results (snd (snd three_wrong_run)))) = 5 \<and>
   r_total_questions (last (results (snd (snd three_wrong_run)))) \<noteq>
     int (length three_wrong_calls)"
  by (simp add: three_wrong_replies three_wrong_row_def three_wrong_calls_def)

subsection \<open>The wrong-answer list of a result\<close>

lemma two_second_answer:
  "handle_answer two_db two_quiz_second 7 0 130 =
     (Inr (Finished \<lparr>o_score = 1, o_total = 2, o_percentage = 50, o_level = ''A1'',
                     o_time_taken = 30\<rparr>),
      None, two_db\<lparr>results := [two_row]\<rparr>)"
  by (simp add: handle_answer_def two_quiz_second_def two_quiz_def py_index_def
        score_answer_def finish_quiz_def determine_level_def percentage_examples
        determined_level_examples save_result_def two_db_results mk_question_def two_row_def)

lemma two_web_second_answer:
  "submit_answer two_db two_web_second (Some 0) 130 =
     (Inr (Finished_web False \<lparr>o_score = 1, o_total = 2, o_percentage = 50, o_level = ''A1'',
                     o_time_taken = 30\<rparr>),
      logged_in\<lparr>ws_current_quiz :=
        Some (two_web_quiz\<lparr>wq_current := 2, wq_score := 1, wq_wrong_answers := [2]\<rparr>)\<rparr>,
      two_db\<lparr>results := [two_web_row]\<rparr>)"
  by (simp add: submit_answer_def two_web_second_def two_web_quiz_def logged_in_def
        py_index_def score_answer_web_def finish_web_def determine_level_def
        percentage_examples determined_level_examples two_db_results mk_question_def
        two_web_row_def)

lemma two_second_facts:
  "ctx_counted (Some two_quiz_second)"
  "quiz_counted two_quiz_second"
  "py_index (questions two_quiz_second) (current two_quiz_second) = Inr (mk_question 2 ''A1'' 1)"
  "0 < lives (score_answer two_quiz_second (mk_question 2 ''A1'' 1) 0)"
  "results (snd (snd (handle_answer two_db two_quiz_second 7 0 130))) = results two_db @ [two_row]"
  by (simp_all add: two_second_answer two_db_results)
     (simp_all add: ctx_counted_def quiz_counted_def two_quiz_second_def two_quiz_def
        py_index_def score_answer_def mk_question_def)

lemma two_web_second_facts:
  "web_counted two_web_second"
  "web_quiz_counted (two_web_quiz\<lparr>wq_current := 1, wq_score := 1\<rparr>)"
  "ws_user_id two_web_second = Some 1"
  "ws_current_quiz two_web_second = Some (two_web_quiz\<lparr>wq_current := 1, wq_score := 1\<rparr>)"
  "results (snd (snd (submit_answer two_db two_web_second (Some 0) 130))) =
     results two_db @ [two_web_row]"
  by (simp_all add: two_web_second_answer two_db_results)
     (simp_all add: web_counted_def web_quiz_counted_def two_web_second_def two_web_quiz_def
        logged_in_def)

text \<open>
  \<^bold>\<open>C9\<close> (as amended). \<open>score + length wrong_answers = cursor\<close> holds in every session
  that a start creates and after every sequence of answer calls on a session in which it
  holds, in the bot and in the web application: every processed answer is counted once.
  The wrong-answer list of a stored result row therefore has as many entries as answers
  were processed minus the score. That is the row's total minus its score for every row of
  the web application and for every row of a bot session that ends with lives left; a bot
  session that ends without lives stores the pool size as the total.
\<close>

theorem answers_counted_once:
  "(ctx_counted ctx \<longrightarrow>
      ctx_counted (snd (start_quiz d ctx uid lvl now)) \<and>
      ctx_counted (fst (snd (answer_calls d ctx uid cs)))) \<and>
   (web_counted sess \<longrightarrow>
      web_counted (snd (start_quiz_web d rnd sess wlvl now)) \<and>
      web_counted (fst (snd (submit_calls d sess ws)))) \<and>
   (quiz_counted data \<longrightarrow> py_index (questions data) (current data) = Inr q \<longrightarrow>
    results (snd (snd (handle_answer d data uid a now))) = results d @ [row] \<longrightarrow>
      int (wrong_entries row) = current data + 1 - r_score row \<and>
      (0 < lives (score_answer data q a) \<longrightarrow>
         int (wrong_entries row) = r_total_questions row - r_score row)) \<and>
   (web_quiz_counted qz \<longrightarrow> ws_user_id sess = Some wuid \<longrightarrow>
    ws_current_quiz sess = Some qz \<longrightarrow>
    results (snd (snd (submit_answer d sess wa now))) = results d @ [wrow] \<longrightarrow>
      int (wrong_entries wrow) = r_total_questions wrow - r_score wrow)"
proof -
  have a: "quiz_counted data \<longrightarrow> py_index (questions data) (current data) = Inr q \<longrightarrow>
    results (snd (snd (handle_answer d data uid a now))) = results d @ [row] \<longrightarrow>
      int (wrong_entries row) = current data + 1 - r_score row \<and>
      (0 < lives (score_answer data q a) \<longrightarrow>
         int (wrong_entries row) = r_total_questions row - r_score row)"
    using handle_answer_row(1,3) [of data q d uid a now row] by blast
  have b: "web_quiz_counted qz \<longrightarrow> ws_user_id sess = Some wuid \<longrightarrow>
    ws_current_quiz sess = Some qz \<longrightarrow>
    results (snd (snd (submit_answer d sess wa now))) = results d @ [wrow] \<longrightarrow>
      int (wrong_entries wrow) = r_total_questions wrow - r_score wrow"
    using submit_answer_row [of qz sess wuid d wa now wrow] by blast
  have c: "ctx_counted ctx \<longrightarrow>
      ctx_counted (snd (start_quiz d ctx uid lvl now)) \<and>
      ctx_counted (fst (snd (answer_calls d ctx uid cs)))"
    by (simp add: start_quiz_counted answer_calls_counted)
  have e: "web_counted sess \<longrightarrow>
      web_counted (snd (start_quiz_web d rnd sess wlvl now)) \<and>
      web_counted (fst (snd (submit_calls d sess ws)))"
    by (simp add: start_quiz_web_counted submit_calls_counted)
  from a b c e show ?thesis by blast
qed

theorem answers_counted_once_witness:
  "ctx_counted (Some two_quiz_second) \<and>
   web_counted two_web_second \<and>
   quiz_counted two_quiz_second \<and>
   py_index (questions two_quiz_second) (current two_quiz_second) =
     Inr (mk_question 2 ''A1'' 1) \<and>
   results (snd (snd (handle_answer two_db two_quiz_second 7 0 130))) =
     results two_db @ [two_row] \<and>
   0 < lives (score_answer two_quiz_second (mk_question 2 ''A1'' 1) 0) \<and>
   web_quiz_counted (two_web_quiz\<lparr>wq_current := 1, wq_score := 1\<rparr>) \<and>
   ws_user_id two_web_second = Some 1 \<and>
   ws_current_quiz two_web_second = Some (two_web_quiz\<lparr>wq_current := 1, wq_score := 1\<rparr>) \<and>
   results (snd (snd (submit_answer two_db two_web_second (Some 0) 130))) =
     results two_db @ [two_web_row] \<and>
   ctx_counted (snd (start_quiz two_db (Some two_quiz_second) 7 ''A1'' 130)) \<and>
   ctx_counted (fst (snd (answer_calls two_db (Some two_quiz_second) 7 [(0, 130)]))) \<and>
   web_counted (snd (start_quiz_web two_db (\<lambda>i. int i) two_web_second (Some ''A1'') 130)) \<and>
   web_counted (fst (snd (submit_calls two_db two_web_second [(Some 0, 130)]))) \<and>
   int (wrong_entries two_row) = current two_quiz_second + 1 - r_score two_row \<and>
   int (wrong_entries two_row) = r_total_questions two_row - r_score two_row \<and>
   int (wrong_entries two_web_row) = r_total_questions two_web_row - r_score two_web_row"
  using answers_counted_once [where ctx = "Some two_quiz_second" and d = two_db and uid = 7
          and lvl = "''A1''" and now = 130 and cs = "[(0, 130)]" and sess = two_web_second
          and rnd = "\<lambda>i. int i" and wlvl = "Some ''A1''" and ws = "[(Some 0, 130)]"
          and data = two_quiz_second and q = "mk_question 2 ''A1'' 1" and a = 0
          and row = two_row and qz = "two_web_quiz\<lparr>wq_current := 1, wq_score := 1\<rparr>"
          and wuid = 1 and wa = "Some 0" and wrow = two_web_row]
        two_second_facts two_web_second_facts
  by blast

theorem wrong_list_size_counterexample:
  "results (snd (snd three_wrong_run)) = [three_wrong_row] \<and>
   wrong_entries three_wrong_row = 3 \<and>
   r_total_questions three_wrong_row - r_score three_wrong_row = 5 \<and>
   int (wrong_entries three_wrong_row) \<noteq>
     r_total_questions three_wrong_row - r_score three_wrong_row"
  by (simp add: three_wrong_replies three_wrong_row_def wrong_entries_def)

subsection \<open>Empty pools and the order of the questions\<close>

lemma fetch_two_none: "fetch_quiz_data two_db rnd (Some ''C1'') = []"
  by (simp add: fetch_quiz_data_def joined_two truthy_def two_levels_def
        order_by_random_def)

lemma get_questions_two_none: "get_questions two_db (Some ''C1'') = []"
  by (simp add: get_questions_def joined_two truthy_def two_levels_def)

lemma start_quiz_empty_pool:
  "(if lvl = ''full'' then get_questions d None else get_questions d (Some lvl)) = [] \<Longrightarrow>
     start_quiz d ctx uid lvl now = (No_questions_alert, ctx)"
  by (simp add: start_quiz_def)

lemma answer_callback_idle: "answer_callback d None uid a now = (Inr No_handler, None, d)"
  by (simp add: answer_callback_def)

lemma bot_start_two_none:
  "start_quiz two_db None 7 ''C1'' 100 = (No_questions_alert, None)"
  by (simp add: start_quiz_def get_questions_two_none)

text \<open>
  \<^bold>\<open>C3.\<close> The web application does not do what the claim states. For a level that matches
  no question (\<open>C1\<close> on \<open>two_db\<close>), \<^verbatim>\<open>start_quiz\<close> of app.py stores the session entry with
  an empty question list and then raises \<^verbatim>\<open>IndexError\<close> at \<^verbatim>\<open>quiz_data[0]\<close>; a later
  \<^verbatim>\<open>submit_answer\<close> on that session finds the entry and raises \<^verbatim>\<open>IndexError\<close> again,
  where a session without an entry gets the "no active quiz" answer. The bot has the guard:
  its \<^verbatim>\<open>start_quiz\<close> answers with the alert and leaves the FSM context alone, and no answer
  handler runs without a session.
\<close>

theorem web_start_empty_pool:
  "fetch_quiz_data two_db (\<lambda>i. int i) (Some ''C1'') = [] \<and>
   start_quiz_web two_db (\<lambda>i. int i) logged_in (Some ''C1'') 100 =
     (Inl IndexError,
      logged_in\<lparr>ws_current_quiz :=
        Some \<lparr>wq_questions = [], wq_current = 0, wq_score = 0, wq_wrong_answers = [],
              wq_start_time = 100, wq_level = Some ''C1''\<rparr>\<rparr>) \<and>
   submit_answer two_db (snd (start_quiz_web two_db (\<lambda>i. int i) logged_in (Some ''C1'') 100))
       (Some 0) 110 =
     (Inl IndexError,
      logged_in\<lparr>ws_current_quiz :=
        Some \<lparr>wq_questions = [], wq_current = 0, wq_score = 0, wq_wrong_answers = [],
              wq_start_time = 100, wq_level = Some ''C1''\<rparr>\<rparr>,
      two_db) \<and>
   submit_answer two_db logged_in (Some 0) 110 = (Inr No_active_quiz, logged_in, two_db) \<and>
   start_quiz two_db None 7 ''C1'' 100 = (No_questions_alert, None) \<and>
   answer_callback two_db None 7 0 110 = (Inr No_handler, None, two_db)"
  by (simp add: fetch_two_none start_quiz_web_def submit_answer_def py_index_def
        logged_in_def bot_start_two_none answer_callback_idle)

lemma q_id_select: "q_id \<circ> select_question = (\<lambda>r. qr_id (fst r))"
  by (rule ext) (simp add: select_question_def)

lemma get_questions_sorted: "sorted (map q_id (get_questions d (Some (c # cs))))"
  by (simp add: get_questions_def truthy_def q_id_select)

lemma joined_unordered:
  "joined unordered_db = map (\<lambda>r. (r, hd two_levels)) [mk_row 3 1 0, mk_row 1 1 0, mk_row 2 1 0]"
  by (simp add: joined_def unordered_db_def empty_db_def two_levels_def mk_row_def)

lemma get_questions_unordered:
  "get_questions unordered_db (Some ''A1'') =
     [mk_question 1 ''A1'' 0, mk_question 2 ''A1'' 0, mk_question 3 ''A1'' 0]"
  by (simp add: get_questions_def joined_unordered truthy_def two_levels_def mk_row_def
        select_question_def mk_question_def)

lemma get_questions_unordered_full:
  "get_questions unordered_db None =
     [mk_question 1 ''A1'' 0, mk_question 2 ''A1'' 0, mk_question 3 ''A1'' 0]"
  by (simp add: get_questions_def joined_unordered truthy_def two_levels_def mk_row_def
        select_question_def mk_question_def)

lemma fetch_unordered_a:
  "map q_id (fetch_quiz_data unordered_db (\<lambda>i. int i) (Some ''A1'')) = [3, 1, 2]"
  by (simp add: fetch_quiz_data_def joined_unordered truthy_def two_levels_def mk_row_def
        select_question_def order_by_random_def upt_rec)

lemma fetch_unordered_b:
  "map q_id (fetch_quiz_data unordered_db (\<lambda>i. - int i) (Some ''A1'')) = [2, 1, 3]"
  by (simp add: fetch_quiz_data_def joined_unordered truthy_def two_levels_def mk_row_def
        select_question_def order_by_random_def upt_rec)

lemma unordered_db_hints: "get_user_hints unordered_db u = 0"
  by (simp add: get_user_hints_def unordered_db_def empty_db_def)

text \<open>
  \<^bold>\<open>C8.\<close> The bot does not do what the claim states. \<^verbatim>\<open>get_questions\<close> of bot.py returns
  the questions of a level in ascending order of their ids, for every database; on
  \<open>unordered_db\<close>, whose rows are stored in the order 3, 1, 2, the bot's session holds the
  questions in the order 1, 2, 3 for the level and for the full test, while the query of
  the web application returns them in the order its random keys give.
\<close>

theorem bot_questions_fixed_order:
  "sorted (map q_id (get_questions d (Some (c # cs)))) \<and>
   map q_id (get_questions unordered_db (Some ''A1'')) = [1, 2, 3] \<and>
   map q_id (get_questions unordered_db None) = [1, 2, 3] \<and>
   map_option (\<lambda>data. map q_id (questions data))
     (snd (start_quiz unordered_db None 7 ''A1'' 0)) = Some [1, 2, 3] \<and>
   map_option (\<lambda>data. map q_id (questions data))
     (snd (start_quiz unordered_db None 7 ''full'' 0)) = Some [1, 2, 3] \<and>
   map q_id (fetch_quiz_data unordered_db (\<lambda>i. int i) (Some ''A1'')) = [3, 1, 2] \<and>
   map q_id (fetch_quiz_data unordered_db (\<lambda>i. - int i) (Some ''A1'')) = [2, 1, 3]"
  by (simp add: get_questions_sorted get_questions_unordered get_questions_unordered_full
        fetch_unordered_a fetch_unordered_b start_quiz_def Let_def mk_question_def)

end
